theory Spec2Isabelle
  imports Main "HOL-Library.AList" "HOL-Library.Multiset"
begin

section \<open>Module rules: data model\<close>

text \<open>
  The engine of \<^verbatim>\<open>hooks/lib/module-rules.ts\<close>. The TypeScript interfaces become records;
  an optional field \<^verbatim>\<open>f?: T\<close> becomes a field of type \<open>T option\<close>, \<open>None\<close> standing for
  \<^verbatim>\<open>undefined\<close>. The numbers \<^verbatim>\<open>priority\<close> and \<^verbatim>\<open>maxTokens\<close> are integers
  (JavaScript's arithmetic on them is exact below \<open>2^53\<close>).

  The field names \<^verbatim>\<open>imports\<close> and \<^verbatim>\<open>keywords\<close> are reserved words of the theory header and
  carry a prime here.
\<close>

record Triggers =
  filePatterns :: "string list option"
  imports' :: "string list option"
  dependencies :: "string list option"
  keywords' :: "string list option"

record ReferenceEntry =
  name :: string
  path :: string
  description :: "string option"
  triggers :: Triggers
  priority :: int
  maxTokens :: int
  disabled :: "bool option"
  overrideTriggers :: "bool option"

text \<open>
  A \<^verbatim>\<open>ReferenceIndex\<close> is a JavaScript object used as a dictionary. Its own properties are
  modelled as an association list in the order \<^verbatim>\<open>Object.entries\<close> enumerates them: assigning
  to a key that is present keeps its position, assigning to a new key appends, \<^verbatim>\<open>delete\<close>
  removes. What a lookup \<^verbatim>\<open>index[name]\<close> finds beyond the own properties, along the prototype
  chain, is modelled where the code performs such a lookup, in \<^verbatim>\<open>mergeIndices\<close>. (An
  object never holds a key twice; theorems that depend on this say \<open>distinct (map fst index)\<close>.
  JavaScript enumerates keys that are canonical array indices before all others; the model
  keeps insertion order throughout, which matters only for the encounter order of
  entries.)
\<close>

type_synonym ReferenceIndex = "(string \<times> ReferenceEntry) list"

section \<open>Index merging\<close>

text \<open>The test \<^verbatim>\<open>if (x)\<close> on an optional boolean: \<^verbatim>\<open>undefined\<close> and \<^verbatim>\<open>false\<close> fail it.\<close>

definition isTrue :: "bool option \<Rightarrow> bool" where
  "isTrue b = (b = Some True)"

text \<open>\<^verbatim>\<open>xs || []\<close> on an optional array (an empty array is truthy and is kept).\<close>

definition orEmpty :: "'a list option \<Rightarrow> 'a list" where
  "orEmpty xs = (case xs of None \<Rightarrow> [] | Some ys \<Rightarrow> ys)"

definition mergeTriggers :: "Triggers \<Rightarrow> Triggers \<Rightarrow> Triggers" where
  "mergeTriggers userTriggers projectTriggers =
     \<lparr> filePatterns = Some (orEmpty (filePatterns userTriggers) @ orEmpty (filePatterns projectTriggers)),
       imports' = Some (orEmpty (imports' userTriggers) @ orEmpty (imports' projectTriggers)),
       dependencies = Some (orEmpty (dependencies userTriggers) @ orEmpty (dependencies projectTriggers)),
       keywords' = Some (orEmpty (keywords' userTriggers) @ orEmpty (keywords' projectTriggers)) \<rparr>"

text \<open>
  The merged catalog is an ordinary object: \<^verbatim>\<open>merged[name]\<close> reads an own property or, failing
  that, one inherited along the prototype chain, which ends in \<^verbatim>\<open>Object.prototype\<close>. The own
  properties are the association list \<open>own\<close>. The prototype is \<^verbatim>\<open>Object.prototype\<close> until an
  assignment to the name \<^verbatim>\<open>__proto__\<close> replaces it by the assigned entry (\<open>prototype\<close>, \<open>None\<close>
  for \<^verbatim>\<open>Object.prototype\<close> itself); a catalog read by \<^verbatim>\<open>JSON.parse\<close> and the copy made by
  \<^verbatim>\<open>{ ...userIndex }\<close> hold \<^verbatim>\<open>__proto__\<close>, if at all, as an own property.
\<close>

datatype error = ENOENT | EISDIR | ENOTDIR | SyntaxError | TypeError | RangeError

record mergedObject =
  own :: ReferenceIndex
  prototype :: "ReferenceEntry option"

text \<open>The property names of \<^verbatim>\<open>Object.prototype\<close>; every one of them holds a truthy value.\<close>

definition objectPrototypeNames :: "string list" where
  "objectPrototypeNames =
     [''constructor'', ''__defineGetter__'', ''__defineSetter__'', ''hasOwnProperty'',
      ''__lookupGetter__'', ''__lookupSetter__'', ''isPrototypeOf'', ''propertyIsEnumerable'',
      ''toString'', ''valueOf'', ''__proto__'', ''toLocaleString'']"

text \<open>Whether an entry, read as an object, holds a truthy value under \<open>key\<close>.\<close>

definition entryProperty :: "ReferenceEntry \<Rightarrow> string \<Rightarrow> bool" where
  "entryProperty e key =
     (if key = ''name'' then name e \<noteq> []
      else if key = ''path'' then path e \<noteq> []
      else if key = ''description'' then (case description e of None \<Rightarrow> False | Some d \<Rightarrow> d \<noteq> [])
      else if key = ''triggers'' then True
      else if key = ''priority'' then ReferenceEntry.priority e \<noteq> 0
      else if key = ''maxTokens'' then ReferenceEntry.maxTokens e \<noteq> 0
      else if key = ''disabled'' then isTrue (disabled e)
      else if key = ''overrideTriggers'' then isTrue (overrideTriggers e)
      else False)"

text \<open>
  What \<^verbatim>\<open>merged[name]\<close> evaluates to: a catalog entry, some other truthy value (a function of
  \<^verbatim>\<open>Object.prototype\<close>, that object itself, or a field of an entry that became the prototype),
  or a falsy value (\<^verbatim>\<open>undefined\<close> among them).
\<close>

datatype property = Falsy | AnEntry ReferenceEntry | Truthy

definition getProperty :: "mergedObject \<Rightarrow> string \<Rightarrow> property" where
  "getProperty merged key =
     (case map_of (own merged) key of
        Some e \<Rightarrow> AnEntry e
      | None \<Rightarrow>
          (case prototype merged of
             None \<Rightarrow> if key \<in> set objectPrototypeNames then Truthy else Falsy
           | Some proto \<Rightarrow>
               if key = ''__proto__'' then AnEntry proto
               else if entryProperty proto key \<or> key \<in> set objectPrototypeNames then Truthy
               else Falsy))"

text \<open>
  \<^verbatim>\<open>merged[name] = v\<close>. An own property is overwritten in place. The name \<^verbatim>\<open>__proto__\<close>, when it
  is not an own property, reaches the setter of \<^verbatim>\<open>Object.prototype\<close>, which replaces the
  prototype and creates no property. Any other name becomes a new own property, appended.
\<close>

definition setProperty :: "mergedObject \<Rightarrow> string \<Rightarrow> ReferenceEntry \<Rightarrow> mergedObject" where
  "setProperty merged key v =
     (if key = ''__proto__'' \<and> map_of (own merged) key = None
      then merged\<lparr>prototype := Some v\<rparr>
      else merged\<lparr>own := AList.update key v (own merged)\<rparr>)"

text \<open>\<^verbatim>\<open>delete merged[name]\<close> removes an own property and nothing else.\<close>

definition deleteProperty :: "mergedObject \<Rightarrow> string \<Rightarrow> mergedObject" where
  "deleteProperty merged key = merged\<lparr>own := AList.delete key (own merged)\<rparr>"

text \<open>
  The body of the loop over \<^verbatim>\<open>Object.entries(projectIndex)\<close>. When \<^verbatim>\<open>merged[name]\<close> is truthy
  but not a catalog entry, \<^verbatim>\<open>merged[name].triggers\<close> is \<^verbatim>\<open>undefined\<close> and \<^verbatim>\<open>mergeTriggers\<close> throws
  a \<^verbatim>\<open>TypeError\<close> on reading \<^verbatim>\<open>userTriggers.filePatterns\<close>.
\<close>

definition mergeStep :: "string \<times> ReferenceEntry \<Rightarrow> mergedObject \<Rightarrow> error + mergedObject" where
  "mergeStep entry merged =
     (case entry of (moduleName, projectRef) \<Rightarrow>
        if isTrue (disabled projectRef) then Inr (deleteProperty merged moduleName)
        else (case getProperty merged moduleName of
                AnEntry existing \<Rightarrow>
                  if \<not> isTrue (overrideTriggers projectRef)
                  then Inr (setProperty merged moduleName
                         (projectRef\<lparr>triggers := mergeTriggers (triggers existing) (triggers projectRef)\<rparr>))
                  else Inr (setProperty merged moduleName projectRef)
              | Truthy \<Rightarrow>
                  if \<not> isTrue (overrideTriggers projectRef)
                  then Inl TypeError
                  else Inr (setProperty merged moduleName projectRef)
              | Falsy \<Rightarrow> Inr (setProperty merged moduleName projectRef)))"

fun mergeLoop :: "(string \<times> ReferenceEntry) list \<Rightarrow> mergedObject \<Rightarrow> error + mergedObject" where
  "mergeLoop [] merged = Inr merged"
| "mergeLoop (entry # rest) merged =
     (case mergeStep entry merged of
        Inl e \<Rightarrow> Inl e
      | Inr merged' \<Rightarrow> mergeLoop rest merged')"

definition indexOrEmpty :: "ReferenceIndex option \<Rightarrow> ReferenceIndex" where
  "indexOrEmpty index = (case index of None \<Rightarrow> [] | Some i \<Rightarrow> i)"

text \<open>
  \<^verbatim>\<open>mergeIndices\<close> returns the merged object; the result here is the list of its own
  properties, which is all that \<^verbatim>\<open>Object.entries\<close> shows of it to \<^verbatim>\<open>detectModules\<close>.
\<close>

definition mergeIndices :: "ReferenceIndex option \<Rightarrow> ReferenceIndex option \<Rightarrow> error + ReferenceIndex" where
  "mergeIndices userIndex projectIndex =
     (let merged = \<lparr> own = indexOrEmpty userIndex, prototype = None \<rparr> in
      case projectIndex of
        None \<Rightarrow> Inr (own merged)
      | Some p \<Rightarrow>
          (case mergeLoop p merged of
             Inl e \<Rightarrow> Inl e
           | Inr merged' \<Rightarrow> Inr (own merged')))"

section \<open>JavaScript strings\<close>

text \<open>
  Strings are lists of characters. The string methods the engine uses are modelled on
  ASCII text: \<^verbatim>\<open>trim\<close> strips the ASCII white space, the case conversions change the
  letters A to Z only.
\<close>

definition isSpace :: "char \<Rightarrow> bool" where
  "isSpace c = (c \<in> set [CHR '' '', CHR 0x09, CHR 0x0A, CHR 0x0B, CHR 0x0C, CHR 0x0D])"

definition trim :: "string \<Rightarrow> string" where
  "trim s = rev (dropWhile isSpace (rev (dropWhile isSpace s)))"

definition startsWith :: "string \<Rightarrow> string \<Rightarrow> bool" where
  "startsWith s p = (take (length p) s = p)"

definition endsWith :: "string \<Rightarrow> string \<Rightarrow> bool" where
  "endsWith s p = (length p \<le> length s \<and> drop (length s - length p) s = p)"

text \<open>\<^verbatim>\<open>s.includes(p)\<close>: \<open>p\<close> occurs in \<open>s\<close> as a substring.\<close>

fun includes' :: "string \<Rightarrow> string \<Rightarrow> bool" where
  "includes' [] p = (p = [])"
| "includes' (c # cs) p = (startsWith (c # cs) p \<or> includes' cs p)"

definition toLowerChar :: "char \<Rightarrow> char" where
  "toLowerChar c =
     (case map_of (zip ''ABCDEFGHIJKLMNOPQRSTUVWXYZ'' ''abcdefghijklmnopqrstuvwxyz'') c of
        Some l \<Rightarrow> l | None \<Rightarrow> c)"

definition toLowerCase :: "string \<Rightarrow> string" where
  "toLowerCase s = map toLowerChar s"

definition toUpperChar :: "char \<Rightarrow> char" where
  "toUpperChar c =
     (case map_of (zip ''abcdefghijklmnopqrstuvwxyz'' ''ABCDEFGHIJKLMNOPQRSTUVWXYZ'') c of
        Some u \<Rightarrow> u | None \<Rightarrow> c)"

definition toUpperCase :: "string \<Rightarrow> string" where
  "toUpperCase s = map toUpperChar s"

text \<open>\<^verbatim>\<open>s.split(sep)\<close> for a separator of one character; the empty string gives one empty piece.\<close>

fun split :: "string \<Rightarrow> char \<Rightarrow> string list" where
  "split [] sep = [[]]"
| "split (c # cs) sep =
     (if c = sep then [] # split cs sep
      else (case split cs sep of [] \<Rightarrow> [[c]] | piece # pieces \<Rightarrow> (c # piece) # pieces))"

text \<open>\<^verbatim>\<open>xs.join(sep)\<close>.\<close>

fun joinWith :: "string \<Rightarrow> string list \<Rightarrow> string" where
  "joinWith sep [] = []"
| "joinWith sep [x] = x"
| "joinWith sep (x # y # ys) = x @ sep @ joinWith sep (y # ys)"

text \<open>\<^verbatim>\<open>s.indexOf(c)\<close>: the first position of the character, or \<open>-1\<close>.\<close>

fun indexOf :: "string \<Rightarrow> char \<Rightarrow> int" where
  "indexOf [] c = -1"
| "indexOf (d # ds) c = (if d = c then 0 else (let i = indexOf ds c in if i < 0 then -1 else i + 1))"

text \<open>
  \<^verbatim>\<open>s.replace(/^["']|["']$/g, '')\<close>: a quote character at the start is removed, and a quote
  character at the end of what is left.
\<close>

definition isQuote :: "char \<Rightarrow> bool" where
  "isQuote c = (c = CHR 0x22 \<or> c = CHR 0x27)"

definition dropQuoteAtEnd :: "string \<Rightarrow> string" where
  "dropQuoteAtEnd s = (if s \<noteq> [] \<and> isQuote (last s) then butlast s else s)"

definition stripQuotes :: "string \<Rightarrow> string" where
  "stripQuotes s =
     (case s of [] \<Rightarrow> []
      | c # cs \<Rightarrow> if isQuote c then dropQuoteAtEnd cs else dropQuoteAtEnd (c # cs))"

text \<open>
  \<^verbatim>\<open>Number(s)\<close>, with \<open>None\<close> for \<^verbatim>\<open>NaN\<close>. The model reads the empty string (as JavaScript
  does, \<open>0\<close>) and decimal integer literals with an optional sign; the other numeric
  literals of JavaScript (fractions, exponents, hexadecimal, \<^verbatim>\<open>Infinity\<close>) are outside the
  integers of this model and read as \<^verbatim>\<open>NaN\<close>.
\<close>

definition isDigit :: "char \<Rightarrow> bool" where
  "isDigit c = (c \<in> set ''0123456789'')"

definition digitValue :: "char \<Rightarrow> int" where
  "digitValue c =
     (case map_of (zip ''0123456789'' [0, 1, 2, 3, 4, 5, 6, 7, 8, 9]) c of
        Some d \<Rightarrow> d | None \<Rightarrow> 0)"

definition decimalValue :: "string \<Rightarrow> int" where
  "decimalValue ds = foldl (\<lambda>acc d. 10 * acc + digitValue d) 0 ds"

definition Number :: "string \<Rightarrow> int option" where
  "Number s =
     (let t = trim s in
      case t of
        [] \<Rightarrow> Some 0
      | c # cs \<Rightarrow>
          if list_all isDigit t then Some (decimalValue t)
          else if c = CHR ''-'' \<and> cs \<noteq> [] \<and> list_all isDigit cs then Some (- decimalValue cs)
          else if c = CHR ''+'' \<and> cs \<noteq> [] \<and> list_all isDigit cs then Some (decimalValue cs)
          else None)"

section \<open>Front-matter parser\<close>

text \<open>
  The parser builds a value of type \<^verbatim>\<open>any\<close>. Its values are the ones the parser can
  store: strings, numbers, booleans, arrays of strings and the \<^verbatim>\<open>triggers\<close> object, whose
  properties are arrays of strings. An array is a JavaScript object too and can be given
  properties, which happens when a \<^verbatim>\<open>triggers: [..]\<close> line precedes a trigger list:
  \<open>JArr items props\<close> carries them. (A write to an index property of an array is recorded as
  an ordinary property. A write to its \<^verbatim>\<open>length\<close> truncates the array, or throws a \<^verbatim>\<open>RangeError\<close>
  when the value is not an array length; the holes of an array made longer are not
  recorded. The elements of such an array are never read.)

  An assignment under the key \<^verbatim>\<open>__proto__\<close> reaches the setter of \<^verbatim>\<open>Object.prototype\<close>: it
  creates no property, it does not throw, and the prototype it may install (an array of
  strings) has none of the properties that are read from the result.
\<close>

datatype jsval =
    JStr string
  | JNum int
  | JBool bool
  | JArr "string list" "(string \<times> string list) list"
  | JObj "(string \<times> string list) list"

type_synonym frontmatter = "(string \<times> jsval) list"

text \<open>The test \<^verbatim>\<open>if (v)\<close> on a property that may be absent.\<close>

definition truthy :: "jsval option \<Rightarrow> bool" where
  "truthy v =
     (case v of
        None \<Rightarrow> False
      | Some (JStr s) \<Rightarrow> s \<noteq> []
      | Some (JNum n) \<Rightarrow> n \<noteq> 0
      | Some (JBool b) \<Rightarrow> b
      | Some (JArr items props) \<Rightarrow> True
      | Some (JObj props) \<Rightarrow> True)"

text \<open>
  \<^verbatim>\<open>currentArray\<close> is \<^verbatim>\<open>null\<close> or a reference to an array. The array it refers to was stored
  as \<^verbatim>\<open>frontmatter.triggers[key]\<close> when it was created (\<open>Attached key\<close>); a later
  \<^verbatim>\<open>triggers:\<close> line replaces the whole \<^verbatim>\<open>triggers\<close> object and leaves \<^verbatim>\<open>currentArray\<close>
  pointing at an array that is no longer part of the result (\<open>Detached\<close>).
\<close>

datatype arrayRef = NoArray | Attached string | Detached

record parseState =
  frontmatter :: frontmatter
  currentKey :: string
  currentArray :: arrayRef

definition triggerKinds :: "string list" where
  "triggerKinds = [''filePatterns'', ''imports'', ''dependencies'', ''keywords'']"

text \<open>\<^verbatim>\<open>if (!frontmatter.triggers) frontmatter.triggers = {}\<close>\<close>

definition ensureTriggers :: "frontmatter \<Rightarrow> frontmatter" where
  "ensureTriggers fm =
     (if \<not> truthy (map_of fm ''triggers'') then AList.update ''triggers'' (JObj []) fm else fm)"

text \<open>
  \<^verbatim>\<open>frontmatter.triggers[key] = items\<close>. The module is strict-mode code: creating a property
  on a primitive value (a string, a number or \<^verbatim>\<open>true\<close> stored under \<^verbatim>\<open>triggers\<close> by an earlier
  \<^verbatim>\<open>triggers: value\<close> line) throws a \<^verbatim>\<open>TypeError\<close>. When \<^verbatim>\<open>triggers\<close> holds an array (an earlier
  \<^verbatim>\<open>triggers: [..]\<close> line) and the key is \<^verbatim>\<open>length\<close>, the assigned array is converted to a number,
  through its text (the items joined by commas).
\<close>

definition setTrigger :: "frontmatter \<Rightarrow> string \<Rightarrow> string list \<Rightarrow> error + frontmatter" where
  "setTrigger fm key items =
     (case map_of fm ''triggers'' of
        None \<Rightarrow> Inl TypeError
      | Some t \<Rightarrow>
          if key = ''__proto__'' then Inr fm
          else (case t of
                  JObj props \<Rightarrow>
                    Inr (AList.update ''triggers'' (JObj (AList.update key items props)) fm)
                | JArr elems props \<Rightarrow>
                    if key = ''length'' then
                      (case Number (joinWith '','' items) of
                         None \<Rightarrow> Inl RangeError
                       | Some n \<Rightarrow>
                           if 0 \<le> n \<and> n < 4294967296
                           then Inr (AList.update ''triggers'' (JArr (take (nat n) elems) props) fm)
                           else Inl RangeError)
                    else Inr (AList.update ''triggers'' (JArr elems (AList.update key items props)) fm)
                | _ \<Rightarrow> Inl TypeError))"

text \<open>\<^verbatim>\<open>frontmatter[key] = value\<close>\<close>

definition setField :: "frontmatter \<Rightarrow> string \<Rightarrow> jsval \<Rightarrow> frontmatter" where
  "setField fm key v = (if key = ''__proto__'' then fm else AList.update key v fm)"

text \<open>
  The items of an inline array \<^verbatim>\<open>[a, b, c]\<close>, or \<open>None\<close> when the cleaned value is not
  bracketed.
\<close>

definition inlineListItems :: "string \<Rightarrow> string list option" where
  "inlineListItems cleanValue =
     (if startsWith cleanValue ''['' \<and> endsWith cleanValue '']''
      then Some (map (\<lambda>s. stripQuotes (trim s)) (split (butlast (tl cleanValue)) (CHR '','')))
      else None)"

text \<open>The value stored for a cleaned value that is not bracketed.\<close>

definition scalarValue :: "string \<Rightarrow> jsval" where
  "scalarValue cleanValue =
     (if cleanValue = ''true'' then JBool True
      else if cleanValue = ''false'' then JBool False
      else (case Number cleanValue of
              Some n \<Rightarrow> JNum n
            | None \<Rightarrow> JStr cleanValue))"

text \<open>\<^verbatim>\<open>currentArray.push(value)\<close> for an array that is attached under \<open>key\<close>.\<close>

definition pushTrigger :: "frontmatter \<Rightarrow> string \<Rightarrow> string \<Rightarrow> frontmatter" where
  "pushTrigger fm key v =
     (case map_of fm ''triggers'' of
        Some (JObj props) \<Rightarrow>
          AList.update ''triggers'' (JObj (AList.map_entry key (\<lambda>items. items @ [v]) props)) fm
      | Some (JArr elems props) \<Rightarrow>
          AList.update ''triggers'' (JArr elems (AList.map_entry key (\<lambda>items. items @ [v]) props)) fm
      | _ \<Rightarrow> fm)"

text \<open>The branch for a \<^verbatim>\<open>key: value\<close> line whose value is not empty.\<close>

definition simpleValue :: "parseState \<Rightarrow> string \<Rightarrow> string \<Rightarrow> error + parseState" where
  "simpleValue st key v =
     (let st1 = st\<lparr>currentArray := NoArray\<rparr>;
          fm = frontmatter st;
          cleanValue = stripQuotes v
      in case inlineListItems cleanValue of
           Some items \<Rightarrow>
             if currentKey st = ''triggers'' \<or> truthy (map_of fm ''triggers'') then
               (case setTrigger (ensureTriggers fm) key items of
                  Inl e \<Rightarrow> Inl e
                | Inr fm' \<Rightarrow> Inr (st1\<lparr>frontmatter := fm'\<rparr>))
             else Inr (st1\<lparr>frontmatter := setField fm key (JArr items [])\<rparr>)
         | None \<Rightarrow> Inr (st1\<lparr>frontmatter := setField fm key (scalarValue cleanValue)\<rparr>))"

text \<open>The branch for a \<^verbatim>\<open>key:\<close> line whose value is empty or \<^verbatim>\<open>{\<close>.\<close>

definition nestedStart :: "parseState \<Rightarrow> string \<Rightarrow> error + parseState" where
  "nestedStart st key =
     (let fm = frontmatter st in
      if key \<in> set triggerKinds then
        (case setTrigger (ensureTriggers fm) key [] of
           Inl e \<Rightarrow> Inl e
         | Inr fm' \<Rightarrow> Inr (st\<lparr>frontmatter := fm', currentArray := Attached key, currentKey := key\<rparr>))
      else if key = ''triggers'' then
        Inr (st\<lparr>frontmatter := AList.update ''triggers'' (JObj []) fm,
                currentArray := (case currentArray st of NoArray \<Rightarrow> NoArray | _ \<Rightarrow> Detached),
                currentKey := key\<rparr>)
      else Inr (st\<lparr>currentKey := key\<rparr>))"

text \<open>The body of the loop over the lines of the block.\<close>

definition parseLine :: "parseState \<Rightarrow> string \<Rightarrow> error + parseState" where
  "parseLine st line =
     (let trimmed = trim line in
      if trimmed = [] \<or> startsWith trimmed ''#'' then Inr st
      else if startsWith trimmed ''- '' then
        (case currentArray st of
           Attached key \<Rightarrow>
             Inr (st\<lparr>frontmatter := pushTrigger (frontmatter st) key (stripQuotes (trim (drop 2 trimmed)))\<rparr>)
         | _ \<Rightarrow> Inr st)
      else
        (let colonIndex = indexOf line (CHR '':'') in
         if colonIndex > 0 then
           (let key = trim (take (nat colonIndex) line);
                v = trim (drop (nat colonIndex + 1) line)
            in if v = [] \<or> v = ''{'' then nestedStart st key else simpleValue st key v)
         else Inr st))"

text \<open>The state before the loop: \<^verbatim>\<open>frontmatter = {}\<close>, \<^verbatim>\<open>currentKey = ''\<close>, \<^verbatim>\<open>currentArray = null\<close>.\<close>

definition initialParseState :: parseState where
  "initialParseState = \<lparr>frontmatter = [], currentKey = [], currentArray = NoArray\<rparr>"

fun parseLines :: "parseState \<Rightarrow> string list \<Rightarrow> error + parseState" where
  "parseLines st [] = Inr st"
| "parseLines st (line # rest) =
     (case parseLine st line of Inl e \<Rightarrow> Inl e | Inr st' \<Rightarrow> parseLines st' rest)"

text \<open>
  \<^verbatim>\<open>content.match(/^---\n([\s\S]*?)\n---\n([\s\S]*)$/)\<close>: the text opens with a line of three
  dashes; the block runs to the first later line of three dashes, the body is the rest.
\<close>

definition NL :: char where
  "NL = CHR 0x0A"

definition delimiter :: string where
  "delimiter = NL # ''---'' @ [NL]"

fun findDelimiter :: "string \<Rightarrow> (string \<times> string) option" where
  "findDelimiter [] = None"
| "findDelimiter (c # cs) =
     (if startsWith (c # cs) delimiter then Some ([], drop (length delimiter) (c # cs))
      else (case findDelimiter cs of None \<Rightarrow> None | Some (yaml, body) \<Rightarrow> Some (c # yaml, body)))"

definition matchFrontmatter :: "string \<Rightarrow> (string \<times> string) option" where
  "matchFrontmatter content =
     (if startsWith content (''---'' @ [NL]) then findDelimiter (drop 4 content) else None)"


definition parseFrontmatter :: "string \<Rightarrow> error + (frontmatter \<times> string)" where
  "parseFrontmatter content =
     (case matchFrontmatter content of
        None \<Rightarrow> Inr ([], content)
      | Some (yaml, body) \<Rightarrow>
          (case parseLines initialParseState (split yaml NL) of
             Inl e \<Rightarrow> Inl e
           | Inr st \<Rightarrow> Inr (frontmatter st, trim body)))"

subsection \<open>Vocabulary for the parser's properties\<close>








section \<open>The environment\<close>

text \<open>
  What the engine reads from outside: the file system, the glob scanner, the
  \<^verbatim>\<open>grep\<close> process and \<^verbatim>\<open>JSON.parse\<close>. A detection cycle writes none of it.

  \<^item> \<open>files\<close>: the node at a path, if any;
  \<^item> \<open>globScan pattern cwd\<close>: the paths \<^verbatim>\<open>new Glob(pattern).scan({cwd, onlyFiles: false})\<close>
    yields, in order, or \<open>None\<close> when the pattern is rejected (the source's
    \<^verbatim>\<open>catch\<close>: ``Invalid glob pattern, skip'');
  \<^item> \<open>grepStdout pattern cwd\<close>: the standard output of
    \<^verbatim>\<open>grep -rlE pattern --include=*.ts ... .\<close> run in \<open>cwd\<close>, or \<open>None\<close> when the process
    cannot be run;
  \<^item> \<open>parseIndexJSON content\<close>: \<^verbatim>\<open>JSON.parse(content)\<close> read at the declared type
    \<^verbatim>\<open>ReferenceIndex | null\<close>: \<open>None\<close> for a \<^verbatim>\<open>SyntaxError\<close>, \<open>Some None\<close> for the document
    \<^verbatim>\<open>null\<close>, \<open>Some (Some index)\<close> for an index;
  \<^item> \<open>parseManifestJSON content\<close>: for a \<^verbatim>\<open>package.json\<close>, \<open>None\<close> when parsing it or
    spreading its dependency sections throws, else the test \<^verbatim>\<open>allDeps[pkgName]\<close> as a
    predicate on package names.
\<close>

datatype node = File string | Dir "string list"

record world =
  files :: "string \<Rightarrow> node option"
  globScan :: "string \<Rightarrow> string \<Rightarrow> string list option"
  grepStdout :: "string \<Rightarrow> string \<Rightarrow> string option"
  parseIndexJSON :: "string \<Rightarrow> ReferenceIndex option option"
  parseManifestJSON :: "string \<Rightarrow> (string \<Rightarrow> bool) option"

text \<open>\<^verbatim>\<open>path.join\<close> (without normalisation); the file system is keyed by the joined path.\<close>

definition join :: "string \<Rightarrow> string \<Rightarrow> string" where
  "join dir file = dir @ ''/'' @ file"

definition existsSync :: "world \<Rightarrow> string \<Rightarrow> bool" where
  "existsSync w p = (files w p \<noteq> None)"

definition readFileSync :: "world \<Rightarrow> string \<Rightarrow> error + string" where
  "readFileSync w p =
     (case files w p of
        None \<Rightarrow> Inl ENOENT
      | Some (Dir names) \<Rightarrow> Inl EISDIR
      | Some (File content) \<Rightarrow> Inr content)"

definition readdirSync :: "world \<Rightarrow> string \<Rightarrow> error + string list" where
  "readdirSync w p =
     (case files w p of
        None \<Rightarrow> Inl ENOENT
      | Some (File content) \<Rightarrow> Inl ENOTDIR
      | Some (Dir names) \<Rightarrow> Inr names)"

text \<open>What \<^verbatim>\<open>console.error\<close> is called with.\<close>

datatype logEvent =
    FailedToParse string error
  | BudgetExceeded string
  | FailedToLoad string error
  | DetectionError error

section \<open>Index loading\<close>

text \<open>
  The entry built from a parsed front-matter. The fields are read at their declared types:
  \<^verbatim>\<open>triggers\<close> gives the four lists it has as properties (none, for a primitive value);
  \<^verbatim>\<open>disabled\<close> and \<^verbatim>\<open>overrideTriggers\<close> are only ever tested for truth; a value of another
  type than the declared one in \<^verbatim>\<open>description\<close>, \<^verbatim>\<open>priority\<close> or \<^verbatim>\<open>maxTokens\<close> is outside
  the typed model and read as absent.
\<close>

definition triggersOf :: "jsval \<Rightarrow> Triggers" where
  "triggersOf v =
     (let props = (case v of JObj ps \<Rightarrow> ps | JArr elems ps \<Rightarrow> ps | _ \<Rightarrow> []) in
      \<lparr> filePatterns = map_of props ''filePatterns'',
        imports' = map_of props ''imports'',
        dependencies = map_of props ''dependencies'',
        keywords' = map_of props ''keywords'' \<rparr>)"

definition asString :: "jsval option \<Rightarrow> string option" where
  "asString v = (case v of Some (JStr s) \<Rightarrow> Some s | _ \<Rightarrow> None)"

definition asNumber :: "jsval option \<Rightarrow> int option" where
  "asNumber v = (case v of Some (JNum n) \<Rightarrow> Some n | _ \<Rightarrow> None)"

definition asFlag :: "jsval option \<Rightarrow> bool option" where
  "asFlag v = (case v of None \<Rightarrow> None | Some x \<Rightarrow> Some (truthy (Some x)))"

text \<open>\<^verbatim>\<open>x ?? d\<close>\<close>

definition orDefault :: "'a option \<Rightarrow> 'a \<Rightarrow> 'a" where
  "orDefault x d = (case x of None \<Rightarrow> d | Some y \<Rightarrow> y)"

text \<open>
  The body of the \<^verbatim>\<open>try\<close> in the loop of \<^verbatim>\<open>scanReferencesDirectory\<close>: the index after the
  file, or what was thrown. \<^verbatim>\<open>name.toLowerCase()\<close> throws on a name that is not a string.
  \<^verbatim>\<open>index[name] = entry\<close> adds or overwrites a property, except under the name \<^verbatim>\<open>__proto__\<close>,
  where it replaces the prototype of the index and its properties stay as they are.
\<close>

definition setEntry :: "string \<Rightarrow> ReferenceEntry \<Rightarrow> ReferenceIndex \<Rightarrow> ReferenceIndex" where
  "setEntry key entry index = (if key = ''__proto__'' then index else AList.update key entry index)"

definition scanFile :: "world \<Rightarrow> string \<Rightarrow> ReferenceIndex \<Rightarrow> error + ReferenceIndex" where
  "scanFile w filePath index =
     (case readFileSync w filePath of
        Inl e \<Rightarrow> Inl e
      | Inr content \<Rightarrow>
          (case parseFrontmatter content of
             Inl e \<Rightarrow> Inl e
           | Inr (fm, body) \<Rightarrow>
               if truthy (map_of fm ''name'') \<and> truthy (map_of fm ''triggers'') then
                 (case (map_of fm ''name'', map_of fm ''triggers'') of
                    (Some (JStr displayName), Some trig) \<Rightarrow>
                      Inr (setEntry (toLowerCase displayName)
                             \<lparr> name = displayName,
                               path = filePath,
                               description = asString (map_of fm ''description''),
                               triggers = triggersOf trig,
                               priority = orDefault (asNumber (map_of fm ''priority'')) 50,
                               maxTokens = orDefault (asNumber (map_of fm ''maxTokens'')) 2000,
                               disabled = asFlag (map_of fm ''disabled''),
                               overrideTriggers = asFlag (map_of fm ''overrideTriggers'') \<rparr>
                             index)
                  | _ \<Rightarrow> Inl TypeError)
               else Inr index))"

fun scanFiles :: "world \<Rightarrow> string \<Rightarrow> string list \<Rightarrow> ReferenceIndex \<times> logEvent list
    \<Rightarrow> ReferenceIndex \<times> logEvent list" where
  "scanFiles w dir [] acc = acc"
| "scanFiles w dir (file # rest) acc =
     (let filePath = join dir file in
      case scanFile w filePath (fst acc) of
        Inl e \<Rightarrow> scanFiles w dir rest (fst acc, snd acc @ [FailedToParse filePath e])
      | Inr index \<Rightarrow> scanFiles w dir rest (index, snd acc))"

text \<open>\<^verbatim>\<open>readdirSync\<close> stands outside the \<^verbatim>\<open>try\<close>: what it throws leaves the function.\<close>

definition scanReferencesDirectory :: "world \<Rightarrow> string \<Rightarrow> error + (ReferenceIndex \<times> logEvent list)" where
  "scanReferencesDirectory w dir =
     (case readdirSync w dir of
        Inl e \<Rightarrow> Inl e
      | Inr names \<Rightarrow>
          Inr (scanFiles w dir (filter (\<lambda>f. endsWith f ''.md'' \<and> f \<noteq> ''README.md'') names) ([], [])))"

text \<open>
  \<^verbatim>\<open>loadReferenceIndex\<close> returns what was thrown or the value returned (\<open>None\<close> for
  \<^verbatim>\<open>null\<close>), and what it logged.
\<close>

definition loadReferenceIndex :: "world \<Rightarrow> string \<Rightarrow> (error + ReferenceIndex option) \<times> logEvent list" where
  "loadReferenceIndex w dir =
     (let referencesDir = join dir ''references'' in
      if \<not> existsSync w referencesDir then (Inr None, [])
      else
        (let indexPath = join referencesDir ''index.json'';
             tried =
               (if existsSync w indexPath then
                  (case readFileSync w indexPath of
                     Inl e \<Rightarrow> Inl [FailedToParse indexPath e]
                   | Inr content \<Rightarrow>
                       (case parseIndexJSON w content of
                          None \<Rightarrow> Inl [FailedToParse indexPath SyntaxError]
                        | Some parsed \<Rightarrow> Inr parsed))
                else Inl [])
         in case tried of
              Inr parsed \<Rightarrow> (Inr parsed, [])
            | Inl logged \<Rightarrow>
                (case scanReferencesDirectory w referencesDir of
                   Inl e \<Rightarrow> (Inl e, logged)
                 | Inr (index, scanLog) \<Rightarrow> (Inr (Some index), logged @ scanLog))))"

section \<open>Detection\<close>

record DetectionResult =
  module :: string
  path :: string
  priority :: int
  maxTokens :: int
  triggers :: "string list"

text \<open>The test \<^verbatim>\<open>if (s)\<close> on a \<^verbatim>\<open>string | null\<close>: \<^verbatim>\<open>null\<close> and the empty string fail it.\<close>

definition truthyString :: "string option \<Rightarrow> bool" where
  "truthyString s = (case s of None \<Rightarrow> False | Some t \<Rightarrow> t \<noteq> [])"

text \<open>The test \<^verbatim>\<open>xs?.length\<close> on an optional array.\<close>

definition hasLength :: "'a list option \<Rightarrow> bool" where
  "hasLength xs = (case xs of None \<Rightarrow> False | Some ys \<Rightarrow> ys \<noteq> [])"

definition excluded :: "string \<Rightarrow> bool" where
  "excluded file = (includes' file ''node_modules'' \<or> includes' file ''.git'')"

text \<open>The loop over the paths of one scan: \<open>matches\<close> after it.\<close>

fun scanMatches :: "string list \<Rightarrow> string list \<Rightarrow> string list" where
  "scanMatches [] matches = matches"
| "scanMatches (file # rest) matches =
     (if excluded file then scanMatches rest matches
      else (let matches' = matches @ [file] in
            if length matches' \<ge> 3 then matches' else scanMatches rest matches'))"

text \<open>The loop over the patterns.\<close>

fun patternLoop :: "world \<Rightarrow> string \<Rightarrow> string list \<Rightarrow> string list \<Rightarrow> string list" where
  "patternLoop w cwd [] matches = matches"
| "patternLoop w cwd (pattern # rest) matches =
     (case globScan w pattern cwd of
        None \<Rightarrow> patternLoop w cwd rest matches
      | Some scanned \<Rightarrow>
          (let matches' = scanMatches scanned matches in
           if length matches' > 0 then matches' else patternLoop w cwd rest matches'))"

definition checkFilePatterns :: "world \<Rightarrow> string list \<Rightarrow> string \<Rightarrow> string list" where
  "checkFilePatterns w patterns cwd = patternLoop w cwd patterns []"

definition escapeRegex :: "string \<Rightarrow> string" where
  "escapeRegex s =
     concat (map (\<lambda>c. if c \<in> set (''.*+?^${}()|[]'' @ [CHR 0x5C]) then [CHR 0x5C, c] else [c]) s)"

text \<open>
  The loop of \<^verbatim>\<open>checkImports\<close> over the patterns, for a non-blank output: the test
  \<^verbatim>\<open>patterns.some(pat => output.length > 0)\<close> is part of it.
\<close>

fun firstImport :: "string \<Rightarrow> string list \<Rightarrow> string list \<Rightarrow> string option" where
  "firstImport output patterns [] = None"
| "firstImport output patterns (p # rest) =
     (if includes' output p \<or> list_ex (\<lambda>pat. length output > 0) patterns then Some p
      else firstImport output patterns rest)"

definition checkImports :: "world \<Rightarrow> string list \<Rightarrow> string \<Rightarrow> string option" where
  "checkImports w patterns cwd =
     (let importPattern = joinWith ''|'' (map escapeRegex patterns) in
      case grepStdout w importPattern cwd of
        None \<Rightarrow> None
      | Some output \<Rightarrow>
          if trim output \<noteq> [] then
            (case firstImport output patterns patterns of
               Some p \<Rightarrow> Some p
             | None \<Rightarrow> (case patterns of [] \<Rightarrow> None | p # rest \<Rightarrow> Some p))
          else None)"

definition checkDependencies :: "world \<Rightarrow> string list \<Rightarrow> string \<Rightarrow> string option" where
  "checkDependencies w packages cwd =
     (let pkgPath = join cwd ''package.json'';
          fromManifest =
            (if existsSync w pkgPath then
               (case readFileSync w pkgPath of
                  Inl e \<Rightarrow> None
                | Inr content \<Rightarrow>
                    (case parseManifestJSON w content of
                       None \<Rightarrow> None
                     | Some allDeps \<Rightarrow> find allDeps packages))
             else None)
      in case fromManifest of
           Some pkgName \<Rightarrow> Some pkgName
         | None \<Rightarrow>
             (let reqPath = join cwd ''requirements.txt'' in
              if existsSync w reqPath then
                (case readFileSync w reqPath of
                   Inl e \<Rightarrow> None
                 | Inr content \<Rightarrow>
                     find (\<lambda>pkgName. includes' (toLowerCase content) (toLowerCase pkgName)) packages)
              else None))"

definition checkKeywords :: "string list \<Rightarrow> string \<Rightarrow> string option" where
  "checkKeywords keywords prompt =
     (let promptLower = toLowerCase prompt in
      find (\<lambda>keyword. includes' promptLower (toLowerCase keyword)) keywords)"

text \<open>The four checks of the loop body of \<^verbatim>\<open>detectModules\<close>, each with its guard.\<close>

definition fileEvidence :: "world \<Rightarrow> ReferenceEntry \<Rightarrow> string \<Rightarrow> string list" where
  "fileEvidence w ref cwd =
     (if hasLength (filePatterns (ReferenceEntry.triggers ref)) then
        (let fileMatches = checkFilePatterns w (orEmpty (filePatterns (ReferenceEntry.triggers ref))) cwd in
         if length fileMatches > 0 then [''files: '' @ joinWith '', '' (take 2 fileMatches)] else [])
      else [])"

definition importEvidence :: "world \<Rightarrow> ReferenceEntry \<Rightarrow> string \<Rightarrow> string list" where
  "importEvidence w ref cwd =
     (if hasLength (imports' (ReferenceEntry.triggers ref)) then
        (let importMatch = checkImports w (orEmpty (imports' (ReferenceEntry.triggers ref))) cwd in
         if truthyString importMatch then [''import: '' @ the importMatch] else [])
      else [])"

definition dependencyEvidence :: "world \<Rightarrow> ReferenceEntry \<Rightarrow> string \<Rightarrow> string list" where
  "dependencyEvidence w ref cwd =
     (if hasLength (dependencies (ReferenceEntry.triggers ref)) then
        (let depMatch = checkDependencies w (orEmpty (dependencies (ReferenceEntry.triggers ref))) cwd in
         if truthyString depMatch then [''dependency: '' @ the depMatch] else [])
      else [])"

definition keywordEvidence :: "ReferenceEntry \<Rightarrow> string option \<Rightarrow> string list" where
  "keywordEvidence ref prompt =
     (if hasLength (keywords' (ReferenceEntry.triggers ref)) \<and> truthyString prompt then
        (let keywordMatch = checkKeywords (orEmpty (keywords' (ReferenceEntry.triggers ref))) (the prompt) in
         if truthyString keywordMatch then [''keyword: '' @ the keywordMatch] else [])
      else [])"

definition matchedTriggers :: "world \<Rightarrow> ReferenceEntry \<Rightarrow> string \<Rightarrow> string option \<Rightarrow> string list" where
  "matchedTriggers w ref cwd prompt =
     fileEvidence w ref cwd @ importEvidence w ref cwd @ dependencyEvidence w ref cwd
       @ keywordEvidence ref prompt"

definition detectionResult :: "world \<Rightarrow> string \<Rightarrow> string option \<Rightarrow> string \<times> ReferenceEntry \<Rightarrow> DetectionResult" where
  "detectionResult w cwd prompt entry =
     (case entry of (moduleName, ref) \<Rightarrow>
        \<lparr> module = moduleName,
          path = ReferenceEntry.path ref,
          priority = ReferenceEntry.priority ref,
          maxTokens = ReferenceEntry.maxTokens ref,
          triggers = matchedTriggers w ref cwd prompt \<rparr>)"

text \<open>The loop over \<^verbatim>\<open>Object.entries(index)\<close>: \<open>results\<close> after it.\<close>

fun detectLoop :: "world \<Rightarrow> string \<Rightarrow> string option \<Rightarrow> ReferenceIndex \<Rightarrow> DetectionResult list
    \<Rightarrow> DetectionResult list" where
  "detectLoop w cwd prompt [] results = results"
| "detectLoop w cwd prompt (entry # rest) results =
     (if length (matchedTriggers w (snd entry) cwd prompt) > 0
      then detectLoop w cwd prompt rest (results @ [detectionResult w cwd prompt entry])
      else detectLoop w cwd prompt rest results)"

text \<open>
  \<^verbatim>\<open>results.sort((a, b) => b.priority - a.priority)\<close>: \<^verbatim>\<open>Array.prototype.sort\<close> is a stable
  sort; by this comparison function it sorts by descending priority.
\<close>

definition sortByPriority :: "DetectionResult list \<Rightarrow> DetectionResult list" where
  "sortByPriority results = sort_key (\<lambda>r. - priority r) results"

definition detectModules :: "world \<Rightarrow> ReferenceIndex \<Rightarrow> string \<Rightarrow> string option \<Rightarrow> DetectionResult list" where
  "detectModules w index cwd prompt = sortByPriority (detectLoop w cwd prompt index [])"

text \<open>
  The paths of one pattern's scan that are not excluded (none when the pattern is
  rejected), for stating what the file-pattern check keeps.
\<close>

definition patternMatches :: "world \<Rightarrow> string \<Rightarrow> string \<Rightarrow> string list" where
  "patternMatches w dir pattern =
     (case globScan w pattern dir of
        None \<Rightarrow> []
      | Some scanned \<Rightarrow> filter (\<lambda>file. \<not> excluded file) scanned)"

section \<open>Reference loading\<close>

definition MAX_TOTAL_TOKENS :: int where
  "MAX_TOTAL_TOKENS = 8000"

record loadState =
  totalTokens :: int
  loadedContent :: "string list"
  loadedModules :: "string list"
  logged :: "logEvent list"

text \<open>The first two statements of the \<^verbatim>\<open>try\<close>: the body of the document, or what was thrown.\<close>

definition loadBody :: "world \<Rightarrow> DetectionResult \<Rightarrow> error + string" where
  "loadBody w m =
     (case readFileSync w (path m) of
        Inl e \<Rightarrow> Inl e
      | Inr content \<Rightarrow>
          (case parseFrontmatter content of
             Inl e \<Rightarrow> Inl e
           | Inr (fm, body) \<Rightarrow> Inr body))"

definition sectionText :: "DetectionResult \<Rightarrow> string \<Rightarrow> string" where
  "sectionText m body =
     ''### '' @ toUpperCase (module m) @ [NL] @ ''_Triggered by: '' @ joinWith '', '' (triggers m)
       @ ''_'' @ [NL, NL] @ body"

text \<open>
  The body of the loop of \<^verbatim>\<open>loadReferences\<close>. The ceiling, the constant
  \<^verbatim>\<open>MAX_TOTAL_TOKENS\<close> of the source, is an argument here.
\<close>

definition loadStep :: "world \<Rightarrow> int \<Rightarrow> loadState \<Rightarrow> DetectionResult \<Rightarrow> loadState" where
  "loadStep w ceiling st m =
     (if totalTokens st + maxTokens m > ceiling then
        st\<lparr>logged := logged st @ [BudgetExceeded (module m)]\<rparr>
      else
        (case loadBody w m of
           Inl e \<Rightarrow> st\<lparr>logged := logged st @ [FailedToLoad (path m) e]\<rparr>
         | Inr body \<Rightarrow>
             st\<lparr>loadedContent := loadedContent st @ [sectionText m body],
                loadedModules := loadedModules st @ [module m],
                totalTokens := totalTokens st + maxTokens m\<rparr>))"

fun loadLoop :: "world \<Rightarrow> int \<Rightarrow> loadState \<Rightarrow> DetectionResult list \<Rightarrow> loadState" where
  "loadLoop w ceiling st [] = st"
| "loadLoop w ceiling st (m # rest) = loadLoop w ceiling (loadStep w ceiling st m) rest"

definition initialLoadState :: loadState where
  "initialLoadState = \<lparr> totalTokens = 0, loadedContent = [], loadedModules = [], logged = [] \<rparr>"

definition assembled :: "loadState \<Rightarrow> string" where
  "assembled st =
     (if length (loadedContent st) = 0 then []
      else ''## Module Rules (Auto-detected: '' @ joinWith '', '' (loadedModules st) @ '')'' @ [NL, NL]
             @ joinWith ([NL, NL] @ ''---'' @ [NL, NL]) (loadedContent st))"

definition loadReferencesWithin :: "world \<Rightarrow> int \<Rightarrow> DetectionResult list \<Rightarrow> string \<times> logEvent list" where
  "loadReferencesWithin w ceiling detected =
     (let st = loadLoop w ceiling initialLoadState detected in (assembled st, logged st))"

definition loadReferences :: "world \<Rightarrow> DetectionResult list \<Rightarrow> string \<times> logEvent list" where
  "loadReferences w detected = loadReferencesWithin w MAX_TOTAL_TOKENS detected"

text \<open>
  The accepted entries, for stating the budget properties: the results that the loop,
  started with the running total \<open>running\<close>, loads into the output.
\<close>

fun acceptedEntries :: "world \<Rightarrow> int \<Rightarrow> int \<Rightarrow> DetectionResult list \<Rightarrow> DetectionResult list" where
  "acceptedEntries w ceiling running [] = []"
| "acceptedEntries w ceiling running (m # rest) =
     (if running + maxTokens m > ceiling then acceptedEntries w ceiling running rest
      else (case loadBody w m of
              Inl e \<Rightarrow> acceptedEntries w ceiling running rest
            | Inr body \<Rightarrow> m # acceptedEntries w ceiling (running + maxTokens m) rest))"

section \<open>Main entry point\<close>

record ModuleRulesConfig =
  userDir :: string
  projectDir :: string
  cwd :: string
  prompt :: "string option"

text \<open>
  The body of the \<^verbatim>\<open>try\<close> of \<^verbatim>\<open>detectAndLoadModuleRules\<close>: what it returns (\<open>None\<close> for
  \<^verbatim>\<open>null\<close>) or what was thrown inside it, and what was logged.
\<close>

definition detectAndLoadBody :: "world \<Rightarrow> ModuleRulesConfig \<Rightarrow> (error + string option) \<times> logEvent list" where
  "detectAndLoadBody w config =
     (case loadReferenceIndex w (userDir config) of
        (Inl e, log1) \<Rightarrow> (Inl e, log1)
      | (Inr userIndex, log1) \<Rightarrow>
          (case loadReferenceIndex w (projectDir config) of
             (Inl e, log2) \<Rightarrow> (Inl e, log1 @ log2)
           | (Inr projectIndex, log2) \<Rightarrow>
               if userIndex = None \<and> projectIndex = None then (Inr None, log1 @ log2)
               else
                 (case mergeIndices userIndex projectIndex of
                    Inl e \<Rightarrow> (Inl e, log1 @ log2)
                  | Inr mergedIndex \<Rightarrow>
                      if length mergedIndex = 0 then (Inr None, log1 @ log2)
                      else
                        (let detected = detectModules w mergedIndex (cwd config) (prompt config) in
                         if length detected = 0 then (Inr None, log1 @ log2)
                         else
                           (case loadReferences w detected of
                              (content, log3) \<Rightarrow>
                                (Inr (if content = [] then None else Some content),
                                 log1 @ log2 @ log3))))))"

text \<open>The \<^verbatim>\<open>catch\<close> logs what was thrown and returns \<^verbatim>\<open>null\<close>.\<close>

definition detectAndLoadModuleRules :: "world \<Rightarrow> ModuleRulesConfig \<Rightarrow> (error + string option) \<times> logEvent list" where
  "detectAndLoadModuleRules w config =
     (case detectAndLoadBody w config of
        (Inl e, logs) \<Rightarrow> (Inr None, logs @ [DetectionError e])
      | (Inr content, logs) \<Rightarrow> (Inr content, logs))"

section \<open>Examples\<close>

subsection \<open>Example catalogs\<close>

text \<open>Scenario 1 of the specification, and a user entry that is itself marked disabled.\<close>

definition userAuth :: ReferenceEntry where
  "userAuth =
     \<lparr> name = ''Auth'', path = ''/home/u/.claude/references/auth.md'', description = None,
       triggers = \<lparr> filePatterns = None, imports' = None, dependencies = None,
                    keywords' = Some [''login''] \<rparr>,
       priority = 80, maxTokens = 2000, disabled = None, overrideTriggers = None \<rparr>"

definition projectAuth :: ReferenceEntry where
  "projectAuth =
     \<lparr> name = ''auth'', path = ''/work/.claude/references/auth.md'', description = Some ''Project auth'',
       triggers = \<lparr> filePatterns = None, imports' = None, dependencies = None,
                    keywords' = Some [''oauth''] \<rparr>,
       priority = 90, maxTokens = 1500, disabled = None, overrideTriggers = None \<rparr>"

definition userLegacy :: ReferenceEntry where
  "userLegacy =
     \<lparr> name = ''legacy'', path = ''/home/u/.claude/references/legacy.md'', description = None,
       triggers = \<lparr> filePatterns = None, imports' = None, dependencies = None,
                    keywords' = Some [''legacy''] \<rparr>,
       priority = 50, maxTokens = 2000, disabled = Some True, overrideTriggers = None \<rparr>"

definition projectDeploy :: ReferenceEntry where
  "projectDeploy =
     \<lparr> name = ''deploy'', path = ''/work/.claude/references/deploy.md'', description = None,
       triggers = \<lparr> filePatterns = None, imports' = None, dependencies = None,
                    keywords' = Some [''deploy''] \<rparr>,
       priority = 50, maxTokens = 2000, disabled = Some True, overrideTriggers = None \<rparr>"

definition userCatalog :: ReferenceIndex where
  "userCatalog = [(''auth'', userAuth), (''legacy'', userLegacy), (''deploy'', userAuth)]"

definition projectCatalog :: ReferenceIndex where
  "projectCatalog = [(''auth'', projectAuth), (''deploy'', projectDeploy)]"

text \<open>
  A project catalog with an entry under the name \<^verbatim>\<open>constructor\<close>, which every object
  inherits from \<^verbatim>\<open>Object.prototype\<close>.
\<close>

definition projectConstructor :: ReferenceEntry where
  "projectConstructor =
     \<lparr> name = ''Constructor'', path = ''/work/.claude/references/constructor.md'', description = None,
       triggers = \<lparr> filePatterns = None, imports' = None, dependencies = None,
                    keywords' = Some [''constructor''] \<rparr>,
       priority = 50, maxTokens = 2000, disabled = None, overrideTriggers = None \<rparr>"

definition inheritedNameCatalog :: ReferenceIndex where
  "inheritedNameCatalog = [(''auth'', projectAuth), (''constructor'', projectConstructor)]"

text \<open>Scenario 4 of the specification: three results of 2000, 2000 and 500 tokens.\<close>

definition thirdDocument :: string where
  "thirdDocument = joinWith [NL] [''---'', ''name: Third'', ''priority: 10'', ''---'', ''Third body'', []]"

definition scenarioWorld :: world where
  "scenarioWorld =
     \<lparr> files = map_of
         [(''/docs/first.md'', File ''First body''),
          (''/docs/second.md'', File ''Second body''),
          (''/docs/third.md'', File thirdDocument)],
       globScan = (\<lambda>pattern dir. None),
       grepStdout = (\<lambda>pattern dir. None),
       parseIndexJSON = (\<lambda>content. None),
       parseManifestJSON = (\<lambda>content. None) \<rparr>"

definition firstResult :: DetectionResult where
  "firstResult = \<lparr> module = ''first'', path = ''/docs/first.md'', priority = 90, maxTokens = 2000,
                   triggers = [''keyword: alpha''] \<rparr>"

definition secondResult :: DetectionResult where
  "secondResult = \<lparr> module = ''second'', path = ''/docs/second.md'', priority = 80, maxTokens = 2000,
                    triggers = [''keyword: beta''] \<rparr>"

definition thirdResult :: DetectionResult where
  "thirdResult = \<lparr> module = ''third'', path = ''/docs/third.md'', priority = 10, maxTokens = 500,
                   triggers = [''keyword: gamma''] \<rparr>"

text \<open>A working directory with TypeScript sources, a manifest and no requirements file.\<close>

definition manifestText :: string where
  "manifestText = ''{\"dependencies\": {\"react\": \"^18.0.0\"}}''"

definition workWorld :: world where
  "workWorld =
     \<lparr> files = map_of [(''/work/package.json'', File manifestText)],
       globScan = (\<lambda>pattern dir.
         if dir = ''/work'' then
           map_of
             [(''**/*.py'', []),
              (''**/*.ts'',
                 [''node_modules/react/index.ts'', ''src/a.ts'', ''.git/hooks/b.ts'', ''src/b.ts'',
                  ''src/c.ts'', ''src/d.ts'']),
              (''*.md'', [''README.md''])]
             pattern
         else None),
       grepStdout = (\<lambda>pattern dir.
         if dir = ''/work'' \<and> pattern = ''express'' @ [CHR 0x5C] @ ''.Router'' then Some (''./src/a.ts'' @ [NL])
         else Some []),
       parseIndexJSON = (\<lambda>content. None),
       parseManifestJSON = (\<lambda>content.
         if content = manifestText
         then Some (\<lambda>pkgName. pkgName = ''react'' \<or> pkgName \<in> set objectPrototypeNames)
         else None) \<rparr>"

text \<open>
  A working directory with build output under \<^verbatim>\<open>dist\<close>, \<^verbatim>\<open>build\<close> and \<^verbatim>\<open>target\<close> and a
  Subversion administrative directory.
\<close>

definition buildWorld :: world where
  "buildWorld =
     \<lparr> files = map_of [],
       globScan = (\<lambda>pattern dir.
         if dir = ''/work'' then
           map_of
             [(''**/*.js'',
                 [''dist/bundle.js'', ''build/out/app.js'', ''target/classes/app.js'', ''src/app.js'']),
              (''.svn/*'', [''.svn/entries'', ''.svn/wc.db''])]
             pattern
         else None),
       grepStdout = (\<lambda>pattern dir. Some []),
       parseIndexJSON = (\<lambda>content. None),
       parseManifestJSON = (\<lambda>content. None) \<rparr>"

definition entryWith :: "string \<Rightarrow> Triggers \<Rightarrow> int \<Rightarrow> ReferenceEntry" where
  "entryWith displayName trig prio =
     \<lparr> name = displayName, path = ''/home/u/.claude/references/'' @ displayName @ ''.md'',
       description = None, triggers = trig, priority = prio, maxTokens = 2000,
       disabled = None, overrideTriggers = None \<rparr>"

definition noTriggers :: Triggers where
  "noTriggers = \<lparr> filePatterns = None, imports' = None, dependencies = None, keywords' = None \<rparr>"

definition workCatalog :: ReferenceIndex where
  "workCatalog =
     [(''web'', entryWith ''web'' (noTriggers\<lparr>filePatterns := Some [''src/[a'', ''**/*.py'', ''**/*.ts'', ''*.md'']\<rparr>) 50),
      (''auth'', entryWith ''auth'' (noTriggers\<lparr>keywords' := Some [''oauth'']\<rparr>) 90),
      (''data'', entryWith ''data'' (noTriggers\<lparr>dependencies := Some [''pandas'']\<rparr>) 70),
      (''api'', entryWith ''api'' (noTriggers\<lparr>imports' := Some [''express.Router'']\<rparr>) 50)]"

text \<open>
  A user directory whose \<^verbatim>\<open>references/index.json\<close> holds the JSON document \<^verbatim>\<open>null\<close>, which
  \<^verbatim>\<open>JSON.parse\<close> reads as \<^verbatim>\<open>null\<close>.
\<close>

definition nullIndexWorld :: world where
  "nullIndexWorld =
     \<lparr> files = map_of
         [(''/home/u/.claude/references'', Dir [''index.json'']),
          (''/home/u/.claude/references/index.json'', File ''null'')],
       globScan = (\<lambda>pattern dir. None),
       grepStdout = (\<lambda>pattern dir. None),
       parseIndexJSON = (\<lambda>content. if content = ''null'' then Some None else None),
       parseManifestJSON = (\<lambda>content. None) \<rparr>"

text \<open>
  A session: the user directory has a broken \<^verbatim>\<open>index.json\<close> and one reference document,
  the project directory has no \<^verbatim>\<open>references\<close>.
\<close>

definition authDocument :: string where
  "authDocument =
     joinWith [NL]
       [''---'', ''name: Auth'', ''description: Authentication rules'', ''priority: 80'',
        ''triggers:'', ''  keywords:'', ''    - login'', ''    - \"oauth\"'', ''---'',
        ''# Auth'', [], ''Use OAuth.'', []]"

definition sessionWorld :: world where
  "sessionWorld =
     \<lparr> files = map_of
         [(''/home/u/.claude/references'', Dir [''index.json'', ''README.md'', ''auth.md'', ''notes.txt'']),
          (''/home/u/.claude/references/index.json'', File ''{ \"auth\": ''),
          (''/home/u/.claude/references/README.md'', File ''About the references''),
          (''/home/u/.claude/references/auth.md'', File authDocument)],
       globScan = (\<lambda>pattern dir. Some []),
       grepStdout = (\<lambda>pattern dir. Some []),
       parseIndexJSON = (\<lambda>content. None),
       parseManifestJSON = (\<lambda>content. None) \<rparr>"

definition sessionConfig :: ModuleRulesConfig where
  "sessionConfig =
     \<lparr> userDir = ''/home/u/.claude'', projectDir = ''/work/.claude'', cwd = ''/work'',
       prompt = Some ''Please add OAuth support'' \<rparr>"

definition authEntry :: ReferenceEntry where
  "authEntry =
     \<lparr> name = ''Auth'', ReferenceEntry.path = ''/home/u/.claude/references/auth.md'',
       description = Some ''Authentication rules'',
       ReferenceEntry.triggers = \<lparr> filePatterns = None, imports' = None, dependencies = None,
                                   keywords' = Some [''login'', ''oauth''] \<rparr>,
       ReferenceEntry.priority = 80, ReferenceEntry.maxTokens = 2000,
       disabled = None, overrideTriggers = None \<rparr>"

text \<open>A user directory whose \<^verbatim>\<open>references/index.json\<close> parses to an index of one entry.\<close>

definition indexText :: string where
  "indexText =
     ''{\"auth\": {\"name\": \"Auth\", \"path\": \"/home/u/.claude/references/auth.md\", ''
     @ ''\"description\": \"Authentication rules\", \"triggers\": {\"keywords\": [\"login\", \"oauth\"]}, ''
     @ ''\"priority\": 80, \"maxTokens\": 2000}}''"

definition indexedWorld :: world where
  "indexedWorld =
     \<lparr> files = map_of
         [(''/home/u/.claude/references'', Dir [''index.json'']),
          (''/home/u/.claude/references/index.json'', File indexText)],
       globScan = (\<lambda>pattern dir. None),
       grepStdout = (\<lambda>pattern dir. None),
       parseIndexJSON = (\<lambda>content. if content = indexText then Some (Some [(''auth'', authEntry)]) else None),
       parseManifestJSON = (\<lambda>content. None) \<rparr>"

text \<open>
  The same user directory, and a project directory whose index has an entry under the name
  \<^verbatim>\<open>constructor\<close>.
\<close>

definition projectIndexText :: string where
  "projectIndexText =
     ''{\"auth\": {\"name\": \"auth\", \"path\": \"/work/.claude/references/auth.md\", ''
     @ ''\"description\": \"Project auth\", \"triggers\": {\"keywords\": [\"oauth\"]}, ''
     @ ''\"priority\": 90, \"maxTokens\": 1500}, ''
     @ ''\"constructor\": {\"name\": \"Constructor\", \"path\": \"/work/.claude/references/constructor.md\", ''
     @ ''\"triggers\": {\"keywords\": [\"constructor\"]}, \"priority\": 50, \"maxTokens\": 2000}}''"

definition inheritedNameWorld :: world where
  "inheritedNameWorld =
     \<lparr> files = map_of
         [(''/home/u/.claude/references'', Dir [''index.json'']),
          (''/home/u/.claude/references/index.json'', File indexText),
          (''/work/.claude/references'', Dir [''index.json'']),
          (''/work/.claude/references/index.json'', File projectIndexText)],
       globScan = (\<lambda>pattern dir. None),
       grepStdout = (\<lambda>pattern dir. None),
       parseIndexJSON = (\<lambda>content.
         if content = indexText then Some (Some [(''auth'', authEntry)])
         else if content = projectIndexText then Some (Some inheritedNameCatalog)
         else None),
       parseManifestJSON = (\<lambda>content. None) \<rparr>"

text \<open>A user directory whose \<^verbatim>\<open>references\<close> is a file, not a directory.\<close>

definition brokenWorld :: world where
  "brokenWorld =
     \<lparr> files = map_of [(''/home/u/.claude/references'', File ''not a directory'')],
       globScan = (\<lambda>pattern dir. None),
       grepStdout = (\<lambda>pattern dir. None),
       parseIndexJSON = (\<lambda>content. None),
       parseManifestJSON = (\<lambda>content. None) \<rparr>"




section \<open>Properties of the merge\<close>

lemma mergeStep_other:
  "mergeStep (k, r) m = Inr m' \<Longrightarrow> k \<noteq> n \<Longrightarrow> map_of (own m') n = map_of (own m) n"
  by (auto simp: mergeStep_def setProperty_def deleteProperty_def update_conv' delete_conv'
      split: property.splits if_splits)

lemma mergeStep_same_enabled:
  "mergeStep (n, r) m = Inr m' \<Longrightarrow> map_of (own m') n = Some e \<Longrightarrow> \<not> isTrue (disabled e)"
  by (auto simp: mergeStep_def setProperty_def deleteProperty_def update_conv' delete_conv'
      split: property.splits if_splits)

lemma mergeStep_disabled:
  "isTrue (disabled r) \<Longrightarrow> mergeStep (n, r) m = Inr m' \<Longrightarrow> map_of (own m') n = None"
  by (auto simp: mergeStep_def deleteProperty_def delete_conv')

lemma mergeStep_both:
  "map_of (own m) n = Some ue \<Longrightarrow> \<not> isTrue (overrideTriggers pe) \<Longrightarrow> \<not> isTrue (disabled pe)
     \<Longrightarrow> mergeStep (n, pe) m = Inr m'
     \<Longrightarrow> map_of (own m') n = Some (pe\<lparr>ReferenceEntry.triggers := mergeTriggers (ReferenceEntry.triggers ue) (ReferenceEntry.triggers pe)\<rparr>)"
  by (auto simp: mergeStep_def getProperty_def setProperty_def update_conv')

lemma mergeLoop_absent:
  "mergeLoop p m = Inr m' \<Longrightarrow> n \<notin> fst ` set p \<Longrightarrow> map_of (own m') n = map_of (own m) n"
proof (induction p arbitrary: m)
  case Nil
  then show ?case by simp
next
  case (Cons kr p)
  obtain k r where kr: "kr = (k, r)" by (cases kr)
  from Cons.prems(1) obtain m1 where step: "mergeStep kr m = Inr m1" and rest: "mergeLoop p m1 = Inr m'"
    by (auto split: sum.splits)
  from Cons.prems(2) kr have "k \<noteq> n" and notin: "n \<notin> fst ` set p" by auto
  from mergeStep_other [OF step [unfolded kr] \<open>k \<noteq> n\<close>] Cons.IH [OF rest notin]
  show ?case by simp
qed

lemma mergeLoop_disabled:
  "mergeLoop p m = Inr m' \<Longrightarrow> map_of (own m') n = Some e \<Longrightarrow> isTrue (disabled e)
     \<Longrightarrow> n \<notin> fst ` set p \<and> map_of (own m) n = Some e"
proof (induction p arbitrary: m)
  case Nil
  then show ?case by simp
next
  case (Cons kr p)
  obtain k r where kr: "kr = (k, r)" by (cases kr)
  from Cons.prems(1) obtain m1 where step: "mergeStep kr m = Inr m1" and rest: "mergeLoop p m1 = Inr m'"
    by (auto split: sum.splits)
  from Cons.IH [OF rest Cons.prems(2) Cons.prems(3)]
  have notin: "n \<notin> fst ` set p" and mid: "map_of (own m1) n = Some e" by simp_all
  have "k \<noteq> n"
  proof
    assume "k = n"
    with step kr have "mergeStep (n, r) m = Inr m1" by simp
    from mergeStep_same_enabled [OF this mid] Cons.prems(3) show False by simp
  qed
  from mergeStep_other [OF step [unfolded kr] this] mid notin kr \<open>k \<noteq> n\<close>
  show ?case by simp
qed

lemma mergeLoop_present:
  "distinct (map fst p) \<Longrightarrow> map_of p n = Some r \<Longrightarrow> mergeLoop p m = Inr m'
     \<Longrightarrow> \<exists>m1 m2. map_of (own m1) n = map_of (own m) n \<and> mergeStep (n, r) m1 = Inr m2
           \<and> map_of (own m') n = map_of (own m2) n"
proof (induction p arbitrary: m)
  case Nil
  then show ?case by simp
next
  case (Cons kr p)
  obtain k r' where kr: "kr = (k, r')" by (cases kr)
  from Cons.prems(3) obtain m1 where step: "mergeStep kr m = Inr m1" and rest: "mergeLoop p m1 = Inr m'"
    by (auto split: sum.splits)
  show ?case
  proof (cases "k = n")
    case True
    with Cons.prems kr have r: "r' = r" and notin: "n \<notin> fst ` set p" by auto
    from step kr True r have "mergeStep (n, r) m = Inr m1" by simp
    with mergeLoop_absent [OF rest notin] show ?thesis by blast
  next
    case False
    with Cons.prems kr have d: "distinct (map fst p)" and q: "map_of p n = Some r" by auto
    from Cons.IH [OF d q rest] obtain m2 m3
      where "map_of (own m2) n = map_of (own m1) n" and "mergeStep (n, r) m2 = Inr m3"
        and "map_of (own m') n = map_of (own m3) n" by blast
    with mergeStep_other [OF step [unfolded kr] False] show ?thesis by auto
  qed
qed

lemma mergeIndices_project_disabled:
  assumes "distinct (map fst p)" and "map_of p n = Some r" and "isTrue (disabled r)"
    and "mergeIndices userIndex (Some p) = Inr merged"
  shows "map_of merged n = None"
proof -
  from assms(4) obtain m'
    where loop: "mergeLoop p \<lparr> own = indexOrEmpty userIndex, prototype = None \<rparr> = Inr m'"
      and merged: "merged = own m'"
    by (auto simp: mergeIndices_def split: sum.splits)
  from mergeLoop_present [OF assms(1,2) loop] obtain m1 m2
    where "mergeStep (n, r) m1 = Inr m2" and "map_of (own m') n = map_of (own m2) n" by blast
  with mergeStep_disabled [OF assms(3)] merged show ?thesis by simp
qed

lemma mergeIndices_disabled_origin:
  assumes "mergeIndices userIndex projectIndex = Inr merged"
    and "map_of merged n = Some e" and "isTrue (disabled e)"
  shows "map_of (indexOrEmpty userIndex) n = Some e \<and> n \<notin> fst ` set (indexOrEmpty projectIndex)"
proof (cases projectIndex)
  case None
  with assms show ?thesis by (auto simp: mergeIndices_def indexOrEmpty_def)
next
  case (Some p)
  with assms(1) obtain m'
    where loop: "mergeLoop p \<lparr> own = indexOrEmpty userIndex, prototype = None \<rparr> = Inr m'"
      and merged: "merged = own m'"
    by (auto simp: mergeIndices_def split: sum.splits)
  from assms(2) merged have "map_of (own m') n = Some e" by simp
  from mergeLoop_disabled [OF loop this assms(3)] Some show ?thesis
    by (simp add: indexOrEmpty_def)
qed

lemma mergeIndices_both:
  assumes "distinct (map fst p)" and "map_of p n = Some pe" and "map_of u n = Some ue"
    and "\<not> isTrue (overrideTriggers pe)" and "\<not> isTrue (disabled pe)"
    and "mergeIndices (Some u) (Some p) = Inr merged"
  shows "map_of merged n
           = Some (pe\<lparr>ReferenceEntry.triggers := mergeTriggers (ReferenceEntry.triggers ue) (ReferenceEntry.triggers pe)\<rparr>)"
proof -
  from assms(6) obtain m'
    where loop: "mergeLoop p \<lparr> own = u, prototype = None \<rparr> = Inr m'"
      and merged: "merged = own m'"
    by (auto simp: mergeIndices_def indexOrEmpty_def split: sum.splits)
  from mergeLoop_present [OF assms(1,2) loop] obtain m1 m2
    where before: "map_of (own m1) n = map_of u n" and step: "mergeStep (n, pe) m1 = Inr m2"
      and after: "map_of (own m') n = map_of (own m2) n" by auto
  from before assms(3) have "map_of (own m1) n = Some ue" by simp
  from mergeStep_both [OF this assms(4,5) step] after merged show ?thesis by simp
qed

text \<open>
  The merge returns a catalog whenever no name of the project catalog is a property name
  of \<^verbatim>\<open>Object.prototype\<close>.
\<close>

lemma mergeStep_returns:
  "prototype m = None \<Longrightarrow> k \<notin> set objectPrototypeNames
     \<Longrightarrow> \<exists>m'. mergeStep (k, r) m = Inr m' \<and> prototype m' = None"
  by (auto simp: mergeStep_def getProperty_def setProperty_def deleteProperty_def
      objectPrototypeNames_def split: option.splits)

lemma mergeLoop_returns:
  "prototype m = None \<Longrightarrow> \<forall>k \<in> fst ` set p. k \<notin> set objectPrototypeNames
     \<Longrightarrow> \<exists>m'. mergeLoop p m = Inr m'"
proof (induction p arbitrary: m)
  case Nil
  then show ?case by simp
next
  case (Cons kr p)
  obtain k r where kr: "kr = (k, r)" by (cases kr)
  from Cons.prems(2) kr have "k \<notin> set objectPrototypeNames"
    and rest: "\<forall>k \<in> fst ` set p. k \<notin> set objectPrototypeNames" by auto
  from mergeStep_returns [OF Cons.prems(1) this(1)] obtain m1
    where "mergeStep (k, r) m = Inr m1" and "prototype m1 = None" by blast
  with Cons.IH [OF this(2) rest] kr show ?case by simp
qed

lemma mergeIndices_returns:
  "\<forall>k \<in> fst ` set (indexOrEmpty projectIndex). k \<notin> set objectPrototypeNames
     \<Longrightarrow> \<exists>merged. mergeIndices userIndex projectIndex = Inr merged"
proof (cases projectIndex)
  case None
  then show ?thesis by (simp add: mergeIndices_def)
next
  case (Some p)
  assume "\<forall>k \<in> fst ` set (indexOrEmpty projectIndex). k \<notin> set objectPrototypeNames"
  with Some have "\<forall>k \<in> fst ` set p. k \<notin> set objectPrototypeNames" by (simp add: indexOrEmpty_def)
  from mergeLoop_returns [OF _ this, of "\<lparr> own = indexOrEmpty userIndex, prototype = None \<rparr>"]
  obtain m' where "mergeLoop p \<lparr> own = indexOrEmpty userIndex, prototype = None \<rparr> = Inr m'" by auto
  with Some show ?thesis by (simp add: mergeIndices_def)
qed

lemma merge_catalogs:
  "mergeIndices (Some userCatalog) (Some projectCatalog)
     = Inr [(''auth'', projectAuth\<lparr>ReferenceEntry.triggers :=
                mergeTriggers (ReferenceEntry.triggers userAuth) (ReferenceEntry.triggers projectAuth)\<rparr>),
            (''legacy'', userLegacy)]"
  by (simp add: mergeIndices_def indexOrEmpty_def mergeStep_def getProperty_def setProperty_def
      deleteProperty_def isTrue_def userCatalog_def projectCatalog_def projectAuth_def
      projectDeploy_def userLegacy_def userAuth_def)

subsection \<open>C1: disabled entries in the merged catalog\<close>

text \<open>
  C1, as stated, fails: the merge only looks at the \<^verbatim>\<open>disabled\<close> flag of project entries. A
  user entry that is itself marked disabled, under a name the project catalog does not
  mention, passes through.
\<close>

theorem C1_user_disabled_survives:
  "mergeIndices (Some userCatalog) (Some projectCatalog)
     = Inr [(''auth'', projectAuth\<lparr>ReferenceEntry.triggers :=
                mergeTriggers (ReferenceEntry.triggers userAuth) (ReferenceEntry.triggers projectAuth)\<rparr>),
            (''legacy'', userLegacy)]
   \<and> disabled userLegacy = Some True"
  by (simp add: mergeIndices_def indexOrEmpty_def mergeStep_def getProperty_def setProperty_def
      deleteProperty_def isTrue_def userCatalog_def projectCatalog_def projectAuth_def
      projectDeploy_def userLegacy_def userAuth_def)

text \<open>
  C1, amended: an entry of the merged catalog whose \<^verbatim>\<open>disabled\<close> flag is true is a user
  entry, unchanged, under a name that the project catalog does not mention; and a name
  whose project entry is disabled is absent from the merged catalog.
\<close>

theorem C1_merged_disabled:
  "mergeIndices userIndex projectIndex = Inr merged \<longrightarrow>
     (\<forall>n e. map_of merged n = Some e \<and> isTrue (disabled e)
        \<longrightarrow> map_of (indexOrEmpty userIndex) n = Some e
            \<and> n \<notin> fst ` set (indexOrEmpty projectIndex))
   \<and> (\<forall>p n r. projectIndex = Some p \<and> distinct (map fst p) \<and> map_of p n = Some r
          \<and> isTrue (disabled r)
        \<longrightarrow> map_of merged n = None)"
proof (intro impI conjI allI)
  fix n e
  assume m: "mergeIndices userIndex projectIndex = Inr merged"
  assume a: "map_of merged n = Some e \<and> isTrue (disabled e)"
  from a have a1: "map_of merged n = Some e" and a2: "isTrue (disabled e)" by simp_all
  from mergeIndices_disabled_origin [OF m a1 a2]
  show "map_of (indexOrEmpty userIndex) n = Some e"
    and "n \<notin> fst ` set (indexOrEmpty projectIndex)" by simp_all
next
  fix p n r
  assume m: "mergeIndices userIndex projectIndex = Inr merged"
  assume b: "projectIndex = Some p \<and> distinct (map fst p) \<and> map_of p n = Some r
    \<and> isTrue (disabled r)"
  from b have b0: "projectIndex = Some p" and b1: "distinct (map fst p)"
    and b2: "map_of p n = Some r" and b3: "isTrue (disabled r)" by simp_all
  from m b0 have "mergeIndices userIndex (Some p) = Inr merged" by simp
  from mergeIndices_project_disabled [OF b1 b2 b3 this]
  show "map_of merged n = None" .
qed

theorem C1_merged_disabled_witness:
  "mergeIndices (Some userCatalog) (Some projectCatalog)
     = Inr [(''auth'', projectAuth\<lparr>ReferenceEntry.triggers :=
                mergeTriggers (ReferenceEntry.triggers userAuth) (ReferenceEntry.triggers projectAuth)\<rparr>),
            (''legacy'', userLegacy)]
   \<and> isTrue (disabled userLegacy)
   \<and> map_of (indexOrEmpty (Some userCatalog)) ''legacy'' = Some userLegacy
   \<and> ''legacy'' \<notin> fst ` set (indexOrEmpty (Some projectCatalog))
   \<and> distinct (map fst projectCatalog)
   \<and> map_of projectCatalog ''deploy'' = Some projectDeploy
   \<and> isTrue (disabled projectDeploy)
   \<and> map_of [(''auth'', projectAuth\<lparr>ReferenceEntry.triggers :=
                mergeTriggers (ReferenceEntry.triggers userAuth) (ReferenceEntry.triggers projectAuth)\<rparr>),
              (''legacy'', userLegacy)] ''deploy'' = None"
proof -
  note m = merge_catalogs
  have d: "isTrue (disabled userLegacy)"
    by (simp add: isTrue_def userLegacy_def)
  have p: "distinct (map fst projectCatalog)"
    and q: "map_of projectCatalog ''deploy'' = Some projectDeploy"
    and r: "isTrue (disabled projectDeploy)"
    by (simp_all add: projectCatalog_def isTrue_def projectDeploy_def)
  note inst = C1_merged_disabled [of "Some userCatalog" "Some projectCatalog", THEN mp, OF m]
  from inst [THEN conjunct1, THEN spec, THEN spec, of "''legacy''" userLegacy] d
  have o: "map_of (indexOrEmpty (Some userCatalog)) ''legacy'' = Some userLegacy
      \<and> ''legacy'' \<notin> fst ` set (indexOrEmpty (Some projectCatalog))" by simp
  from inst [THEN conjunct2, THEN spec, THEN spec, THEN spec, of projectCatalog "''deploy''" projectDeploy]
    p q r
  have a: "map_of [(''auth'', projectAuth\<lparr>ReferenceEntry.triggers :=
                mergeTriggers (ReferenceEntry.triggers userAuth) (ReferenceEntry.triggers projectAuth)\<rparr>),
              (''legacy'', userLegacy)] ''deploy'' = None" by simp
  from m d o p q r a show ?thesis by simp
qed

subsection \<open>C2: additive merge of the trigger lists\<close>

text \<open>
  Where the merge returns a catalog, the entry under a name present in both catalogs whose
  project entry sets neither \<^verbatim>\<open>overrideTriggers\<close> nor \<^verbatim>\<open>disabled\<close> has the project entry's
  path, priority, maxTokens and description, and each of its four trigger lists is the user
  list followed by the project list (an absent list counting as empty), duplicates kept.
\<close>

lemma merge_concatenates_triggers:
  assumes "distinct (map fst projectIndex)"
    and "map_of userIndex n = Some userRef"
    and "map_of projectIndex n = Some projectRef"
    and "\<not> isTrue (overrideTriggers projectRef)"
    and "\<not> isTrue (disabled projectRef)"
    and "mergeIndices (Some userIndex) (Some projectIndex) = Inr merged"
  shows "\<exists>m. map_of merged n = Some m
      \<and> ReferenceEntry.path m = ReferenceEntry.path projectRef \<and> ReferenceEntry.priority m = ReferenceEntry.priority projectRef
      \<and> ReferenceEntry.maxTokens m = ReferenceEntry.maxTokens projectRef \<and> description m = description projectRef
      \<and> filePatterns (ReferenceEntry.triggers m)
          = Some (orEmpty (filePatterns (ReferenceEntry.triggers userRef)) @ orEmpty (filePatterns (ReferenceEntry.triggers projectRef)))
      \<and> imports' (ReferenceEntry.triggers m)
          = Some (orEmpty (imports' (ReferenceEntry.triggers userRef)) @ orEmpty (imports' (ReferenceEntry.triggers projectRef)))
      \<and> dependencies (ReferenceEntry.triggers m)
          = Some (orEmpty (dependencies (ReferenceEntry.triggers userRef)) @ orEmpty (dependencies (ReferenceEntry.triggers projectRef)))
      \<and> keywords' (ReferenceEntry.triggers m)
          = Some (orEmpty (keywords' (ReferenceEntry.triggers userRef)) @ orEmpty (keywords' (ReferenceEntry.triggers projectRef)))"
  using mergeIndices_both [OF assms(1,3,2,4,5,6)] by (simp add: mergeTriggers_def)

text \<open>
  C2 says that for every name present in both catalogs whose project entry sets neither
  \<^verbatim>\<open>overrideTriggers\<close> nor \<^verbatim>\<open>disabled\<close>, the merged entry produced by \<^verbatim>\<open>mergeIndices\<close> keeps the
  project entry's fields and concatenates the trigger lists. The code does not always
  produce a merged entry: \<^verbatim>\<open>mergeIndices\<close> tests \<^verbatim>\<open>merged[name]\<close>, which is also truthy for a
  name inherited from \<^verbatim>\<open>Object.prototype\<close>. With the user catalog \<^verbatim>\<open>{auth}\<close> and the project
  catalog \<^verbatim>\<open>{auth, constructor}\<close>, the name \<^verbatim>\<open>auth\<close> satisfies every condition of C2, and
  \<^verbatim>\<open>mergeIndices\<close> throws a \<^verbatim>\<open>TypeError\<close> at the name \<^verbatim>\<open>constructor\<close> instead of returning a
  catalog.
\<close>

theorem C2_inherited_name_throws:
  "distinct (map fst inheritedNameCatalog)
   \<and> map_of [(''auth'', userAuth)] ''auth'' = Some userAuth
   \<and> map_of inheritedNameCatalog ''auth'' = Some projectAuth
   \<and> overrideTriggers projectAuth = None
   \<and> disabled projectAuth = None
   \<and> mergeIndices (Some [(''auth'', userAuth)]) (Some inheritedNameCatalog) = Inl TypeError"
  by (simp add: mergeIndices_def indexOrEmpty_def mergeStep_def getProperty_def setProperty_def
      deleteProperty_def isTrue_def objectPrototypeNames_def inheritedNameCatalog_def
      projectAuth_def projectConstructor_def userAuth_def)

section \<open>Properties of the budgeted assembler\<close>


lemma loadLoop_append:
  "loadLoop w c st (xs @ ys) = loadLoop w c (loadLoop w c st xs) ys"
  by (induction xs arbitrary: st) simp_all

lemma loadStep_skip:
  "totalTokens st + maxTokens m > c \<Longrightarrow>
   loadStep w c st m = st\<lparr>logged := logged st @ [BudgetExceeded (module m)]\<rparr>"
  by (simp add: loadStep_def)

lemma loadStep_accept:
  "\<not> totalTokens st + maxTokens m > c \<Longrightarrow> loadBody w m = Inr body \<Longrightarrow>
   loadStep w c st m = st\<lparr>loadedContent := loadedContent st @ [sectionText m body],
                loadedModules := loadedModules st @ [module m],
                totalTokens := totalTokens st + maxTokens m\<rparr>"
  by (simp add: loadStep_def)

lemma loadStep_fail:
  "\<not> totalTokens st + maxTokens m > c \<Longrightarrow> loadBody w m = Inl e \<Longrightarrow>
   loadStep w c st m = st\<lparr>logged := logged st @ [FailedToLoad (path m) e]\<rparr>"
  by (simp add: loadStep_def)

lemma loadLoop_totalTokens:
  "totalTokens (loadLoop w c st ms)
     = totalTokens st + sum_list (map maxTokens (acceptedEntries w c (totalTokens st) ms))"
proof (induction ms arbitrary: st)
  case Nil
  then show ?case by simp
next
  case (Cons m ms)
  show ?case
  proof (cases "totalTokens st + maxTokens m > c")
    case True
    then show ?thesis using Cons.IH [of "loadStep w c st m"] by (simp add: loadStep_skip)
  next
    case False
    then show ?thesis using Cons.IH [of "loadStep w c st m"]
      by (cases "loadBody w m") (simp_all add: loadStep_fail loadStep_accept)
  qed
qed


lemma loadLoop_loadedContent_length:
  "length (loadedContent (loadLoop w c st ms))
     = length (loadedContent st) + length (acceptedEntries w c (totalTokens st) ms)"
proof (induction ms arbitrary: st)
  case Nil
  then show ?case by simp
next
  case (Cons m ms)
  show ?case
  proof (cases "totalTokens st + maxTokens m > c")
    case True
    then show ?thesis using Cons.IH [of "loadStep w c st m"] by (simp add: loadStep_skip)
  next
    case False
    then show ?thesis using Cons.IH [of "loadStep w c st m"]
      by (cases "loadBody w m") (simp_all add: loadStep_fail loadStep_accept)
  qed
qed

lemma acceptedEntries_within:
  "running \<le> c \<Longrightarrow> running + sum_list (map maxTokens (acceptedEntries w c running ms)) \<le> c"
proof (induction ms arbitrary: running)
  case Nil
  then show ?case by simp
next
  case (Cons m ms)
  show ?case
  proof (cases "running + maxTokens m > c")
    case True
    then show ?thesis using Cons.IH [OF Cons.prems] by simp
  next
    case False
    then have le: "running + maxTokens m \<le> c" by simp
    show ?thesis
    proof (cases "loadBody w m")
      case (Inl e)
      then show ?thesis using False Cons.IH [OF Cons.prems] by simp
    next
      case (Inr body)
      then show ?thesis using False Cons.IH [OF le] by (simp add: add.assoc)
    qed
  qed
qed

lemma loadReferences_within_budget:
  "sum_list (map maxTokens (acceptedEntries w MAX_TOTAL_TOKENS 0 detected)) \<le> MAX_TOTAL_TOKENS"
  using acceptedEntries_within [of 0 MAX_TOTAL_TOKENS w detected] by (simp add: MAX_TOTAL_TOKENS_def)

lemma acceptedEntries_append:
  "acceptedEntries w c running (xs @ ys)
     = acceptedEntries w c running xs
       @ acceptedEntries w c (running + sum_list (map maxTokens (acceptedEntries w c running xs))) ys"
proof (induction xs arbitrary: running)
  case Nil
  then show ?case by simp
next
  case (Cons m ms)
  show ?case
    by (cases "loadBody w m") (simp_all add: Cons.IH add.assoc)
qed


lemma loadBody_first: "loadBody scenarioWorld firstResult = Inr ''First body''"
  by (simp add: loadBody_def readFileSync_def scenarioWorld_def firstResult_def
      parseFrontmatter_def matchFrontmatter_def startsWith_def)

lemma loadBody_second: "loadBody scenarioWorld secondResult = Inr ''Second body''"
  by (simp add: loadBody_def readFileSync_def scenarioWorld_def secondResult_def
      parseFrontmatter_def matchFrontmatter_def startsWith_def)

lemma parse_thirdDocument:
  "parseFrontmatter thirdDocument = Inr ([(''name'', JStr ''Third''), (''priority'', JNum 10)], ''Third body'')"
  by code_simp

lemma loadBody_third: "loadBody scenarioWorld thirdResult = Inr ''Third body''"
  by (simp add: loadBody_def readFileSync_def scenarioWorld_def thirdResult_def parse_thirdDocument)


subsection \<open>C3: the budget is never exceeded\<close>



subsection \<open>C10: the budget bound is inclusive\<close>

text \<open>
  C10: an entry whose \<^verbatim>\<open>maxTokens\<close> brings the running total to exactly the ceiling passes
  the skip test; when its document loads it is accepted, and the counter then equals the
  ceiling. The skip is taken exactly when the sum is strictly greater than the ceiling.
\<close>

theorem C10_budget_bound_inclusive:
  assumes "totalTokens (loadLoop w ceiling initialLoadState before) + maxTokens m = ceiling"
    and "loadBody w m = Inr body"
  shows "acceptedEntries w ceiling 0 (before @ m # after)
        = acceptedEntries w ceiling 0 before @ m # acceptedEntries w ceiling ceiling after
    \<and> totalTokens (loadLoop w ceiling initialLoadState (before @ [m])) = ceiling
    \<and> loadedModules (loadLoop w ceiling initialLoadState (before @ [m]))
        = loadedModules (loadLoop w ceiling initialLoadState before) @ [module m]
    \<and> logged (loadLoop w ceiling initialLoadState (before @ [m]))
        = logged (loadLoop w ceiling initialLoadState before)
    \<and> (\<forall>st x. (logged (loadStep w ceiling st x) = logged st @ [BudgetExceeded (module x)])
              = (totalTokens st + maxTokens x > ceiling))"
proof (intro conjI allI)
  let ?st = "loadLoop w ceiling initialLoadState before"
  have t: "totalTokens ?st = sum_list (map maxTokens (acceptedEntries w ceiling 0 before))"
    by (simp add: loadLoop_totalTokens initialLoadState_def)
  from assms(1) have fits: "\<not> totalTokens ?st + maxTokens m > ceiling" by simp
  show "acceptedEntries w ceiling 0 (before @ m # after)
        = acceptedEntries w ceiling 0 before @ m # acceptedEntries w ceiling ceiling after"
    using assms fits by (simp add: acceptedEntries_append t [symmetric])
  have step: "loadLoop w ceiling initialLoadState (before @ [m]) = loadStep w ceiling ?st m"
    by (simp add: loadLoop_append)
  show "totalTokens (loadLoop w ceiling initialLoadState (before @ [m])) = ceiling"
    using assms(1) by (simp add: step loadStep_accept [OF fits assms(2)])
  show "loadedModules (loadLoop w ceiling initialLoadState (before @ [m]))
        = loadedModules ?st @ [module m]"
    by (simp add: step loadStep_accept [OF fits assms(2)])
  show "logged (loadLoop w ceiling initialLoadState (before @ [m])) = logged ?st"
    by (simp add: step loadStep_accept [OF fits assms(2)])
next
  fix st x
  show "(logged (loadStep w ceiling st x) = logged st @ [BudgetExceeded (module x)])
      = (totalTokens st + maxTokens x > ceiling)"
    by (cases "loadBody w x") (simp_all add: loadStep_def)
qed

theorem C10_budget_bound_inclusive_witness:
  "totalTokens (loadLoop scenarioWorld 2500 initialLoadState [firstResult]) + maxTokens thirdResult = 2500
   \<and> loadBody scenarioWorld thirdResult = Inr ''Third body''
   \<and> acceptedEntries scenarioWorld 2500 0 ([firstResult] @ thirdResult # [secondResult])
       = acceptedEntries scenarioWorld 2500 0 [firstResult] @ thirdResult
           # acceptedEntries scenarioWorld 2500 2500 [secondResult]
   \<and> acceptedEntries scenarioWorld 2500 0 [firstResult, thirdResult, secondResult]
       = [firstResult, thirdResult]
   \<and> totalTokens (loadLoop scenarioWorld 2500 initialLoadState ([firstResult] @ [thirdResult])) = 2500"
proof -
  have h1: "totalTokens (loadLoop scenarioWorld 2500 initialLoadState [firstResult])
      + maxTokens thirdResult = 2500"
    by (simp add: loadStep_def loadBody_first initialLoadState_def)
       (simp add: firstResult_def thirdResult_def)
  note inst = C10_budget_bound_inclusive [OF h1 loadBody_third, of "[secondResult]"]
  from inst have a: "acceptedEntries scenarioWorld 2500 0 ([firstResult] @ thirdResult # [secondResult])
       = acceptedEntries scenarioWorld 2500 0 [firstResult] @ thirdResult
           # acceptedEntries scenarioWorld 2500 2500 [secondResult]"
    by (rule conjunct1)
  from inst have b: "totalTokens (loadLoop scenarioWorld 2500 initialLoadState ([firstResult] @ [thirdResult])) = 2500"
    by (rule conjunct2 [THEN conjunct1])
  have c: "acceptedEntries scenarioWorld 2500 0 [firstResult, thirdResult, secondResult]
       = [firstResult, thirdResult]"
    by (simp add: loadBody_first loadBody_second loadBody_third)
       (simp add: firstResult_def secondResult_def thirdResult_def)
  from h1 loadBody_third a b c show ?thesis by (intro conjI)
qed


section \<open>Properties of detection\<close>

text \<open>A component of a path is a substring of it.\<close>


lemma split_not_Nil: "split s sep \<noteq> []"
  by (induction s) (auto split: list.splits)

lemma split_first_prefix: "split s sep = piece # pieces \<Longrightarrow> \<exists>rest. s = piece @ rest"
proof (induction s arbitrary: piece pieces)
  case Nil
  then show ?case by simp
next
  case (Cons c cs)
  show ?case
  proof (cases "c = sep")
    case True
    with Cons.prems show ?thesis by simp
  next
    case False
    obtain p ps where s: "split cs sep = p # ps"
      using split_not_Nil [of cs sep] by (cases "split cs sep") auto
    from Cons.IH [OF s] obtain rest where "cs = p @ rest" by blast
    with Cons.prems False s show ?thesis by auto
  qed
qed

lemma split_piece_infix:
  "piece \<in> set (split s sep) \<Longrightarrow> \<exists>before after. s = before @ piece @ after"
proof (induction s arbitrary: piece)
  case Nil
  then show ?case by simp
next
  case (Cons c cs)
  show ?case
  proof (cases "c = sep")
    case True
    with Cons.prems have "piece = [] \<or> piece \<in> set (split cs sep)" by simp
    then show ?thesis
    proof
      assume "piece = []"
      then have "c # cs = [] @ piece @ (c # cs)" by simp
      then show ?thesis by blast
    next
      assume "piece \<in> set (split cs sep)"
      from Cons.IH [OF this] obtain before after where "cs = before @ piece @ after" by blast
      then have "c # cs = (c # before) @ piece @ after" by simp
      then show ?thesis by blast
    qed
  next
    case False
    obtain p ps where s: "split cs sep = p # ps"
      using split_not_Nil [of cs sep] by (cases "split cs sep") auto
    with Cons.prems False have "piece = c # p \<or> piece \<in> set ps" by simp
    then show ?thesis
    proof
      assume pc: "piece = c # p"
      from split_first_prefix [OF s] obtain rest where "cs = p @ rest" by blast
      with pc have "c # cs = [] @ piece @ rest" by simp
      then show ?thesis by blast
    next
      assume "piece \<in> set ps"
      with s have "piece \<in> set (split cs sep)" by simp
      from Cons.IH [OF this] obtain before after where "cs = before @ piece @ after" by blast
      then have "c # cs = (c # before) @ piece @ after" by simp
      then show ?thesis by blast
    qed
  qed
qed

lemma includes'_infix: "includes' (before @ p @ after) p"
proof (induction before)
  case Nil
  show ?case
  proof (cases "p @ after")
    case Nil
    then show ?thesis by simp
  next
    case (Cons c cs)
    have "take (length p) (p @ after) = p" by simp
    with Cons show ?thesis by (simp add: startsWith_def)
  qed
next
  case (Cons c before)
  then show ?case by simp
qed

lemma includes'_component: "piece \<in> set (split s sep) \<Longrightarrow> includes' s piece"
  using split_piece_infix [of piece s sep] includes'_infix by auto

lemma scanMatches_take:
  "length matches < 3 \<Longrightarrow>
   scanMatches scanned matches = take 3 (matches @ filter (\<lambda>file. \<not> excluded file) scanned)"
proof (induction scanned arbitrary: matches)
  case Nil
  then show ?case by simp
next
  case (Cons scannedFile rest)
  show ?case
  proof (cases "excluded scannedFile")
    case True
    then show ?thesis using Cons.IH [OF Cons.prems] by simp
  next
    case False
    show ?thesis
    proof (cases "length (matches @ [scannedFile]) \<ge> 3")
      case True
      with Cons.prems have "length matches = 2" by simp
      then show ?thesis using False True by simp
    next
      case False2: False
      then have "length (matches @ [scannedFile]) < 3" by simp
      from Cons.IH [OF this] False False2 show ?thesis by simp
    qed
  qed
qed

lemma patternLoop_no_match:
  "\<forall>q\<in>set patterns. patternMatches w dir q = [] \<Longrightarrow> patternLoop w dir patterns [] = []"
proof (induction patterns)
  case Nil
  then show ?case by simp
next
  case (Cons q rest)
  then have q: "patternMatches w dir q = []" and r: "\<forall>q\<in>set rest. patternMatches w dir q = []"
    by simp_all
  show ?case
  proof (cases "globScan w q dir")
    case None
    then show ?thesis using Cons.IH [OF r] by simp
  next
    case (Some scanned)
    with q have "filter (\<lambda>file. \<not> excluded file) scanned = []" by (simp add: patternMatches_def)
    then have "scanMatches scanned [] = []" by (simp add: scanMatches_take)
    then show ?thesis using Some Cons.IH [OF r] by simp
  qed
qed

lemma patternLoop_first_match:
  assumes "\<forall>q\<in>set before. patternMatches w dir q = []" and "patternMatches w dir p \<noteq> []"
  shows "patternLoop w dir (before @ p # after) [] = take 3 (patternMatches w dir p)"
  using assms
proof (induction before)
  case Nil
  then obtain scanned where s: "globScan w p dir = Some scanned"
    by (cases "globScan w p dir") (simp_all add: patternMatches_def)
  with Nil have ne: "filter (\<lambda>file. \<not> excluded file) scanned \<noteq> []" by (simp add: patternMatches_def)
  have "scanMatches scanned [] = take 3 (filter (\<lambda>file. \<not> excluded file) scanned)"
    by (simp add: scanMatches_take)
  with s ne show ?case by (simp add: patternMatches_def)
next
  case (Cons q rest)
  then have q: "patternMatches w dir q = []" and r: "\<forall>q\<in>set rest. patternMatches w dir q = []"
    by simp_all
  show ?case
  proof (cases "globScan w q dir")
    case None
    then show ?thesis using Cons.IH [OF r Cons.prems(2)] by simp
  next
    case (Some scanned)
    with q have "filter (\<lambda>file. \<not> excluded file) scanned = []" by (simp add: patternMatches_def)
    then have "scanMatches scanned [] = []" by (simp add: scanMatches_take)
    then show ?thesis using Some Cons.IH [OF r Cons.prems(2)] by simp
  qed
qed

lemma patternLoop_cases:
  "patternLoop w dir patterns [] = []
   \<or> (\<exists>p\<in>set patterns. patternLoop w dir patterns [] = take 3 (patternMatches w dir p))"
proof (cases "\<forall>q\<in>set patterns. patternMatches w dir q = []")
  case True
  then show ?thesis by (simp add: patternLoop_no_match)
next
  case False
  then have "\<exists>q\<in>set patterns. patternMatches w dir q \<noteq> []" by simp
  then obtain before p after where parts: "patterns = before @ p # after"
    and p: "patternMatches w dir p \<noteq> []" and b: "\<forall>q\<in>set before. \<not> patternMatches w dir q \<noteq> []"
    using split_list_first_prop [of patterns "\<lambda>q. patternMatches w dir q \<noteq> []"] by blast
  from b have "\<forall>q\<in>set before. patternMatches w dir q = []" by simp
  from patternLoop_first_match [OF this p] parts show ?thesis by auto
qed

lemma patternMatches_not_excluded:
  "file \<in> set (patternMatches w dir p) \<Longrightarrow> \<not> excluded file"
  by (cases "globScan w p dir") (simp_all add: patternMatches_def)

subsection \<open>C7: the file-pattern check\<close>

text \<open>
  C7, as stated, fails: the check drops the paths that contain \<^verbatim>\<open>node_modules\<close> or \<^verbatim>\<open>.git\<close>
  and no others. Paths inside the build-output directories \<^verbatim>\<open>dist\<close>, \<^verbatim>\<open>build\<close> and \<^verbatim>\<open>target\<close>,
  and inside the version-control directory \<^verbatim>\<open>.svn\<close>, are returned as evidence.
\<close>

theorem C7_build_output_returned:
  "checkFilePatterns buildWorld [''**/*.js''] ''/work''
     = [''dist/bundle.js'', ''build/out/app.js'', ''target/classes/app.js'']
   \<and> checkFilePatterns buildWorld [''.svn/*''] ''/work'' = [''.svn/entries'', ''.svn/wc.db'']"
  by (simp add: checkFilePatterns_def buildWorld_def excluded_def startsWith_def)

text \<open>
  C7, amended: no path returned by \<^verbatim>\<open>checkFilePatterns\<close> contains the text \<^verbatim>\<open>node_modules\<close> or
  the text \<^verbatim>\<open>.git\<close>, so none has a component of either name (none lies inside such a
  directory); at most three paths are returned; and the scan stops at the first pattern
  that yields a match, a match being a scanned path that contains neither text: the result
  is the first three matches of that pattern, whatever patterns come after it. When no
  pattern yields a match, the result is empty.
\<close>

theorem C7_file_patterns:
  "(\<forall>file\<in>set (checkFilePatterns w patterns dir).
       \<not> includes' file ''node_modules'' \<and> \<not> includes' file ''.git''
       \<and> ''node_modules'' \<notin> set (split file (CHR ''/''))
       \<and> ''.git'' \<notin> set (split file (CHR ''/'')))
   \<and> length (checkFilePatterns w patterns dir) \<le> 3
   \<and> (\<forall>before p after.
         patterns = before @ p # after
         \<and> (\<forall>q\<in>set before. patternMatches w dir q = [])
         \<and> patternMatches w dir p \<noteq> []
         \<longrightarrow> checkFilePatterns w patterns dir = take 3 (patternMatches w dir p))
   \<and> ((\<forall>q\<in>set patterns. patternMatches w dir q = []) \<longrightarrow> checkFilePatterns w patterns dir = [])"
proof (intro conjI ballI allI impI)
  fix scannedFile
  assume f: "scannedFile \<in> set (checkFilePatterns w patterns dir)"
  from patternLoop_cases [of w dir patterns] f
  obtain p where "scannedFile \<in> set (take 3 (patternMatches w dir p))"
    by (auto simp: checkFilePatterns_def)
  then have "scannedFile \<in> set (patternMatches w dir p)" by (rule in_set_takeD)
  then have "\<not> excluded scannedFile" by (rule patternMatches_not_excluded)
  then show "\<not> includes' scannedFile ''node_modules''" and "\<not> includes' scannedFile ''.git''"
    and "''node_modules'' \<notin> set (split scannedFile (CHR ''/''))"
    and "''.git'' \<notin> set (split scannedFile (CHR ''/''))"
    using includes'_component [of _ scannedFile "CHR ''/''"] by (auto simp: excluded_def)
next
  from patternLoop_cases [of w dir patterns]
  show "length (checkFilePatterns w patterns dir) \<le> 3"
    by (auto simp: checkFilePatterns_def)
next
  fix before p after
  assume a: "patterns = before @ p # after
         \<and> (\<forall>q\<in>set before. patternMatches w dir q = [])
         \<and> patternMatches w dir p \<noteq> []"
  then have b: "\<forall>q\<in>set before. patternMatches w dir q = []" and p: "patternMatches w dir p \<noteq> []"
    by simp_all
  from patternLoop_first_match [OF b p] a
  show "checkFilePatterns w patterns dir = take 3 (patternMatches w dir p)"
    by (simp add: checkFilePatterns_def)
next
  assume "\<forall>q\<in>set patterns. patternMatches w dir q = []"
  then show "checkFilePatterns w patterns dir = []"
    by (simp add: checkFilePatterns_def patternLoop_no_match)
qed

lemma work_patternMatches:
  "patternMatches workWorld ''/work'' ''src/[a'' = []"
  "patternMatches workWorld ''/work'' ''**/*.py'' = []"
  "patternMatches workWorld ''/work'' ''**/*.ts'' = [''src/a.ts'', ''src/b.ts'', ''src/c.ts'', ''src/d.ts'']"
  by (simp_all add: patternMatches_def workWorld_def excluded_def startsWith_def)

theorem C7_file_patterns_witness:
  "[''src/[a'', ''**/*.py'', ''**/*.ts'', ''*.md''] = [''src/[a'', ''**/*.py''] @ ''**/*.ts'' # [''*.md'']
   \<and> patternMatches workWorld ''/work'' ''src/[a'' = []
   \<and> patternMatches workWorld ''/work'' ''**/*.py'' = []
   \<and> patternMatches workWorld ''/work'' ''**/*.ts'' \<noteq> []
   \<and> globScan workWorld ''**/*.ts'' ''/work''
       = Some [''node_modules/react/index.ts'', ''src/a.ts'', ''.git/hooks/b.ts'', ''src/b.ts'',
               ''src/c.ts'', ''src/d.ts'']
   \<and> checkFilePatterns workWorld [''src/[a'', ''**/*.py'', ''**/*.ts'', ''*.md''] ''/work''
       = [''src/a.ts'', ''src/b.ts'', ''src/c.ts'']
   \<and> length (checkFilePatterns workWorld [''src/[a'', ''**/*.py'', ''**/*.ts'', ''*.md''] ''/work'') \<le> 3
   \<and> ''src/a.ts'' \<in> set (checkFilePatterns workWorld [''src/[a'', ''**/*.py'', ''**/*.ts'', ''*.md''] ''/work'')
   \<and> \<not> includes' ''src/a.ts'' ''node_modules'' \<and> \<not> includes' ''src/a.ts'' ''.git''
   \<and> checkFilePatterns workWorld [''src/[a'', ''**/*.py''] ''/work'' = []"
proof -
  let ?patterns = "[''src/[a'', ''**/*.py'', ''**/*.ts'', ''*.md'']"
  note inst = C7_file_patterns [of workWorld ?patterns "''/work''"]
  note none = C7_file_patterns [of workWorld "[''src/[a'', ''**/*.py'']" "''/work''"]
  have parts: "?patterns = [''src/[a'', ''**/*.py''] @ ''**/*.ts'' # [''*.md'']" by simp
  have before: "\<forall>q\<in>set [''src/[a'', ''**/*.py'']. patternMatches workWorld ''/work'' q = []"
    by (simp add: work_patternMatches)
  have here: "patternMatches workWorld ''/work'' ''**/*.ts'' \<noteq> []"
    by (simp add: work_patternMatches)
  from inst parts before here
  have "checkFilePatterns workWorld ?patterns ''/work'' = take 3 (patternMatches workWorld ''/work'' ''**/*.ts'')"
    by blast
  then have res: "checkFilePatterns workWorld ?patterns ''/work'' = [''src/a.ts'', ''src/b.ts'', ''src/c.ts'']"
    by (simp add: work_patternMatches)
  from inst have len: "length (checkFilePatterns workWorld ?patterns ''/work'') \<le> 3"
    by (rule conjunct2 [THEN conjunct1])
  have scan: "globScan workWorld ''**/*.ts'' ''/work''
       = Some [''node_modules/react/index.ts'', ''src/a.ts'', ''.git/hooks/b.ts'', ''src/b.ts'',
               ''src/c.ts'', ''src/d.ts'']"
    by (simp add: workWorld_def)
  from res have mem: "''src/a.ts'' \<in> set (checkFilePatterns workWorld ?patterns ''/work'')"
    by simp
  from inst have "\<forall>file\<in>set (checkFilePatterns workWorld ?patterns ''/work'').
       \<not> includes' file ''node_modules'' \<and> \<not> includes' file ''.git''
       \<and> ''node_modules'' \<notin> set (split file (CHR ''/''))
       \<and> ''.git'' \<notin> set (split file (CHR ''/''))"
    by (rule conjunct1)
  from this [THEN bspec, OF mem]
  have clean: "\<not> includes' ''src/a.ts'' ''node_modules''" "\<not> includes' ''src/a.ts'' ''.git''"
    by simp_all
  from none before have empty: "checkFilePatterns workWorld [''src/[a'', ''**/*.py''] ''/work'' = []"
    by blast
  from parts work_patternMatches(1,2) here scan res len mem clean empty show ?thesis by (intro conjI)
qed

lemma detectLoop_filter:
  "detectLoop w dir promptText index results
     = results @ map (detectionResult w dir promptText)
                   (filter (\<lambda>e. matchedTriggers w (snd e) dir promptText \<noteq> []) index)"
  by (induction index arbitrary: results) simp_all

lemma priority_detectionResult:
  "priority (detectionResult w dir promptText e) = ReferenceEntry.priority (snd e)"
  by (cases e) (simp add: detectionResult_def)

lemma matchedTriggers_evidence:
  "(matchedTriggers w ref dir promptText \<noteq> [])
     = (fileEvidence w ref dir \<noteq> [] \<or> importEvidence w ref dir \<noteq> []
        \<or> dependencyEvidence w ref dir \<noteq> [] \<or> keywordEvidence ref promptText \<noteq> [])"
  by (simp add: matchedTriggers_def)

lemma detectModules_sort:
  "detectModules w index dir promptText
     = sort_key (\<lambda>r. - priority r)
         (map (detectionResult w dir promptText)
            (filter (\<lambda>e. fileEvidence w (snd e) dir \<noteq> [] \<or> importEvidence w (snd e) dir \<noteq> []
                        \<or> dependencyEvidence w (snd e) dir \<noteq> []
                        \<or> keywordEvidence (snd e) promptText \<noteq> []) index))"
  by (simp add: detectModules_def sortByPriority_def detectLoop_filter matchedTriggers_evidence)

subsection \<open>C4: the detected entries, by descending priority\<close>

text \<open>
  C4: the list returned by \<^verbatim>\<open>detectModules\<close> holds exactly the results of the entries for
  which at least one of the four checks produced evidence; the priorities along it never
  increase; and the results of one priority stand in the order in which the catalog was
  enumerated.
\<close>

theorem C4_detected_entries_by_priority:
  "mset (detectModules w index dir promptText)
     = mset (map (detectionResult w dir promptText)
          (filter (\<lambda>e. fileEvidence w (snd e) dir \<noteq> [] \<or> importEvidence w (snd e) dir \<noteq> []
                      \<or> dependencyEvidence w (snd e) dir \<noteq> []
                      \<or> keywordEvidence (snd e) promptText \<noteq> []) index))
   \<and> sorted_wrt (\<lambda>a b. priority a \<ge> priority b) (detectModules w index dir promptText)
   \<and> (\<forall>k. filter (\<lambda>r. priority r = k) (detectModules w index dir promptText)
          = map (detectionResult w dir promptText)
              (filter (\<lambda>e. (fileEvidence w (snd e) dir \<noteq> [] \<or> importEvidence w (snd e) dir \<noteq> []
                           \<or> dependencyEvidence w (snd e) dir \<noteq> []
                           \<or> keywordEvidence (snd e) promptText \<noteq> [])
                          \<and> ReferenceEntry.priority (snd e) = k) index))"
proof (intro conjI allI)
  let ?fired = "\<lambda>e. fileEvidence w (snd e) dir \<noteq> [] \<or> importEvidence w (snd e) dir \<noteq> []
                      \<or> dependencyEvidence w (snd e) dir \<noteq> []
                      \<or> keywordEvidence (snd e) promptText \<noteq> []"
  let ?found = "map (detectionResult w dir promptText) (filter ?fired index)"
  have d: "detectModules w index dir promptText = sort_key (\<lambda>r. - priority r) ?found"
    by (rule detectModules_sort)
  show "mset (detectModules w index dir promptText) = mset ?found"
    unfolding d by simp
  have "sorted (map (\<lambda>r. - priority r) (sort_key (\<lambda>r. - priority r) ?found))"
    by (rule sorted_sort_key)
  then show "sorted_wrt (\<lambda>a b. priority a \<ge> priority b) (detectModules w index dir promptText)"
    unfolding d by (simp add: sorted_map)
  fix k
  have "filter (\<lambda>r. priority r = k) (sort_key (\<lambda>r. - priority r) ?found)
      = filter (\<lambda>r. - priority r = - k) (sort_key (\<lambda>r. - priority r) ?found)"
    by simp
  also have "\<dots> = filter (\<lambda>r. - priority r = - k) ?found"
    by (rule sort_key_stable)
  also have "\<dots> = map (detectionResult w dir promptText)
      (filter (\<lambda>e. ?fired e \<and> ReferenceEntry.priority (snd e) = k) index)"
    by (simp add: filter_map comp_def priority_detectionResult conj_commute)
  finally show "filter (\<lambda>r. priority r = k) (detectModules w index dir promptText)
      = map (detectionResult w dir promptText)
          (filter (\<lambda>e. ?fired e \<and> ReferenceEntry.priority (snd e) = k) index)"
    unfolding d .
qed


theorem C4_detected_entries_by_priority_witness:
  "map module (filter (\<lambda>r. priority r = 50)
      (detectModules workWorld workCatalog ''/work'' (Some ''Please add OAuth support'')))
     = [''web'', ''api'']
   \<and> map module (detectModules workWorld workCatalog ''/work'' (Some ''Please add OAuth support''))
     = [''auth'', ''web'', ''api'']
   \<and> map triggers (detectModules workWorld workCatalog ''/work'' (Some ''Please add OAuth support''))
     = [[''keyword: oauth''], [''files: src/a.ts, src/b.ts''], [''import: express.Router'']]
   \<and> sorted_wrt (\<lambda>a b. priority a \<ge> priority b)
        (detectModules workWorld workCatalog ''/work'' (Some ''Please add OAuth support''))"
proof -
  let ?p = "Some ''Please add OAuth support''"
  note inst = C4_detected_entries_by_priority [of workWorld workCatalog "''/work''" ?p]
  from inst have sorted: "sorted_wrt (\<lambda>a b. priority a \<ge> priority b)
      (detectModules workWorld workCatalog ''/work'' ?p)"
    by (rule conjunct2 [THEN conjunct1])
  from inst have eq: "filter (\<lambda>r. priority r = 50) (detectModules workWorld workCatalog ''/work'' ?p)
      = map (detectionResult workWorld ''/work'' ?p)
          (filter (\<lambda>e. (fileEvidence workWorld (snd e) ''/work'' \<noteq> []
                       \<or> importEvidence workWorld (snd e) ''/work'' \<noteq> []
                       \<or> dependencyEvidence workWorld (snd e) ''/work'' \<noteq> []
                       \<or> keywordEvidence (snd e) ?p \<noteq> [])
                      \<and> ReferenceEntry.priority (snd e) = 50) workCatalog)"
    by (rule conjunct2 [THEN conjunct2, THEN spec])
  have ties: "map module (filter (\<lambda>r. priority r = 50)
      (detectModules workWorld workCatalog ''/work'' ?p)) = [''web'', ''api'']"
    unfolding eq by code_simp
  have all: "map module (detectModules workWorld workCatalog ''/work'' ?p) = [''auth'', ''web'', ''api'']"
    by code_simp
  have ev: "map triggers (detectModules workWorld workCatalog ''/work'' ?p)
     = [[''keyword: oauth''], [''files: src/a.ts, src/b.ts''], [''import: express.Router'']]"
    by code_simp
  from ties all ev sorted show ?thesis by (intro conjI)
qed

lemma patternLoop_cong:
  "\<forall>pattern. globScan w' pattern dir = globScan w pattern dir
   \<Longrightarrow> patternLoop w' dir patterns matches = patternLoop w dir patterns matches"
  by (induction patterns arbitrary: matches) (simp_all add: Let_def split: option.split)

lemma matchedTriggers_cong:
  assumes "\<forall>pattern. globScan w' pattern dir = globScan w pattern dir"
    and "\<forall>pattern. grepStdout w' pattern dir = grepStdout w pattern dir"
    and "files w' (join dir ''package.json'') = files w (join dir ''package.json'')"
    and "files w' (join dir ''requirements.txt'') = files w (join dir ''requirements.txt'')"
    and "parseManifestJSON w' = parseManifestJSON w"
  shows "matchedTriggers w' ref dir promptText = matchedTriggers w ref dir promptText"
proof -
  have f: "fileEvidence w' ref dir = fileEvidence w ref dir"
    by (simp add: fileEvidence_def checkFilePatterns_def patternLoop_cong [OF assms(1)])
  have i: "importEvidence w' ref dir = importEvidence w ref dir"
    using assms(2) by (simp add: importEvidence_def checkImports_def)
  have d: "checkDependencies w' packages dir = checkDependencies w packages dir" for packages
    unfolding checkDependencies_def existsSync_def readFileSync_def Let_def assms(3) assms(4) assms(5)
    by (rule refl)
  show ?thesis
    by (simp add: matchedTriggers_def f i dependencyEvidence_def d)
qed

subsection \<open>C9: detection is repeatable\<close>

text \<open>
  C9: two runs of \<^verbatim>\<open>detectModules\<close> over the same catalog, working directory and prompt
  return the same ordered list when the second run finds what the first one found of the
  environment: the scans and the \<^verbatim>\<open>grep\<close> output in the working directory, its
  \<^verbatim>\<open>package.json\<close> and \<^verbatim>\<open>requirements.txt\<close>, and the reading of the manifest. Detection
  itself changes none of it, so this holds of an unchanged file system.
\<close>

theorem C9_detection_repeatable:
  assumes "\<forall>pattern. globScan w' pattern dir = globScan w pattern dir"
    and "\<forall>pattern. grepStdout w' pattern dir = grepStdout w pattern dir"
    and "files w' (join dir ''package.json'') = files w (join dir ''package.json'')"
    and "files w' (join dir ''requirements.txt'') = files w (join dir ''requirements.txt'')"
    and "parseManifestJSON w' = parseManifestJSON w"
  shows "detectModules w' index dir promptText = detectModules w index dir promptText"
proof -
  have m: "matchedTriggers w' ref dir promptText = matchedTriggers w ref dir promptText" for ref
    by (rule matchedTriggers_cong [OF assms])
  have r: "detectionResult w' dir promptText e = detectionResult w dir promptText e" for e
    by (cases e) (simp add: detectionResult_def m)
  have "detectLoop w' dir promptText index results = detectLoop w dir promptText index results"
    for results
    by (induction index arbitrary: results) (simp_all add: m r)
  then show ?thesis by (simp add: detectModules_def)
qed

theorem C9_detection_repeatable_witness:
  "(\<forall>pattern. globScan (workWorld\<lparr>files := (files workWorld)(''/tmp/other'' \<mapsto> File ''x'')\<rparr>) pattern ''/work''
        = globScan workWorld pattern ''/work'')
   \<and> (\<forall>pattern. grepStdout (workWorld\<lparr>files := (files workWorld)(''/tmp/other'' \<mapsto> File ''x'')\<rparr>) pattern ''/work''
        = grepStdout workWorld pattern ''/work'')
   \<and> files (workWorld\<lparr>files := (files workWorld)(''/tmp/other'' \<mapsto> File ''x'')\<rparr>) (join ''/work'' ''package.json'')
        = files workWorld (join ''/work'' ''package.json'')
   \<and> files (workWorld\<lparr>files := (files workWorld)(''/tmp/other'' \<mapsto> File ''x'')\<rparr>) (join ''/work'' ''requirements.txt'')
        = files workWorld (join ''/work'' ''requirements.txt'')
   \<and> detectModules (workWorld\<lparr>files := (files workWorld)(''/tmp/other'' \<mapsto> File ''x'')\<rparr>)
        workCatalog ''/work'' (Some ''Please add OAuth support'')
      = detectModules workWorld workCatalog ''/work'' (Some ''Please add OAuth support'')
   \<and> detectModules workWorld workCatalog ''/work'' (Some ''Please add OAuth support'') \<noteq> []"
proof -
  let ?w' = "workWorld\<lparr>files := (files workWorld)(''/tmp/other'' \<mapsto> File ''x'')\<rparr>"
  have h1: "\<forall>pattern. globScan ?w' pattern ''/work'' = globScan workWorld pattern ''/work''"
    and h2: "\<forall>pattern. grepStdout ?w' pattern ''/work'' = grepStdout workWorld pattern ''/work''"
    and h5: "parseManifestJSON ?w' = parseManifestJSON workWorld"
    by simp_all
  have h3: "files ?w' (join ''/work'' ''package.json'') = files workWorld (join ''/work'' ''package.json'')"
    and h4: "files ?w' (join ''/work'' ''requirements.txt'') = files workWorld (join ''/work'' ''requirements.txt'')"
    by (simp_all add: join_def)
  note inst = C9_detection_repeatable [OF h1 h2 h3 h4 h5, of workCatalog "Some ''Please add OAuth support''"]
  have ne: "detectModules workWorld workCatalog ''/work'' (Some ''Please add OAuth support'') \<noteq> []"
    by code_simp
  from h1 h2 h3 h4 inst ne show ?thesis by (intro conjI)
qed


section \<open>Properties of index loading\<close>

lemma loadReferenceIndex_missing:
  "\<not> existsSync w (join dir ''references'') \<Longrightarrow> loadReferenceIndex w dir = (Inr None, [])"
  by (simp add: loadReferenceIndex_def)

lemma scanReferencesDirectory_Dir:
  "files w dir = Some (Dir names) \<Longrightarrow>
   scanReferencesDirectory w dir
     = Inr (scanFiles w dir (filter (\<lambda>f. endsWith f ''.md'' \<and> f \<noteq> ''README.md'') names) ([], []))"
  by (simp add: scanReferencesDirectory_def readdirSync_def)

lemma loadReferenceIndex_null:
  assumes "fst (loadReferenceIndex w dir) = Inr None"
  shows "\<not> existsSync w (join dir ''references'')
    \<or> (\<exists>content. readFileSync w (join (join dir ''references'') ''index.json'') = Inr content
          \<and> parseIndexJSON w content = Some None)"
  using assms
  by (auto simp: loadReferenceIndex_def Let_def
      split: if_splits sum.splits option.splits prod.splits)

lemma loadReferenceIndex_fallthrough:
  assumes "files w (join dir ''references'') = Some (Dir names)"
    and "\<not> existsSync w (join (join dir ''references'') ''index.json'') \<and> logs = []
       \<or> existsSync w (join (join dir ''references'') ''index.json'')
           \<and> ((\<exists>e. readFileSync w (join (join dir ''references'') ''index.json'') = Inl e
                   \<and> logs = [FailedToParse (join (join dir ''references'') ''index.json'') e])
              \<or> (\<exists>content. readFileSync w (join (join dir ''references'') ''index.json'') = Inr content
                   \<and> parseIndexJSON w content = None
                   \<and> logs = [FailedToParse (join (join dir ''references'') ''index.json'') SyntaxError]))"
  shows "loadReferenceIndex w dir
     = (Inr (Some (fst (scanFiles w (join dir ''references'')
                     (filter (\<lambda>f. endsWith f ''.md'' \<and> f \<noteq> ''README.md'') names) ([], [])))),
        logs @ snd (scanFiles w (join dir ''references'')
                     (filter (\<lambda>f. endsWith f ''.md'' \<and> f \<noteq> ''README.md'') names) ([], [])))"
proof -
  from assms(1) have ex: "existsSync w (join dir ''references'')" by (simp add: existsSync_def)
  note scan = scanReferencesDirectory_Dir [OF assms(1)]
  from assms(2) show ?thesis
    by (auto simp: loadReferenceIndex_def Let_def ex scan split: prod.splits)
qed


subsection \<open>C8: a catalog or the ``no catalog'' value\<close>

text \<open>
  C8, as stated, fails: the references directory can exist and the load still return
  \<^verbatim>\<open>null\<close>, because the value parsed from \<^verbatim>\<open>index.json\<close> is returned as it is, and the JSON
  document \<^verbatim>\<open>null\<close> parses to \<^verbatim>\<open>null\<close>.
\<close>

theorem C8_null_index_in_existing_directory:
  "existsSync nullIndexWorld (join ''/home/u/.claude'' ''references'')
   \<and> fst (loadReferenceIndex nullIndexWorld ''/home/u/.claude'') = Inr None"
  by code_simp

text \<open>
  C8, amended: \<^verbatim>\<open>loadReferenceIndex\<close> returns \<^verbatim>\<open>null\<close> when the references path does not
  exist. When it returns \<^verbatim>\<open>null\<close> although the path exists, \<^verbatim>\<open>index.json\<close> was read and parsed
  to \<^verbatim>\<open>null\<close>; a value parsed from \<^verbatim>\<open>index.json\<close> is returned as it is. When the references
  path is a directory and \<^verbatim>\<open>index.json\<close> is absent, or cannot be read or parsed (which is
  logged), the load falls through to the scan and returns its catalog.
\<close>

theorem C8_catalog_or_null:
  "(\<not> existsSync w (join dir ''references'') \<longrightarrow> loadReferenceIndex w dir = (Inr None, []))
   \<and> (fst (loadReferenceIndex w dir) = Inr None
        \<longrightarrow> \<not> existsSync w (join dir ''references'')
            \<or> (\<exists>content. readFileSync w (join (join dir ''references'') ''index.json'') = Inr content
                  \<and> parseIndexJSON w content = Some None))
   \<and> (\<forall>content parsed.
         existsSync w (join dir ''references'')
         \<and> readFileSync w (join (join dir ''references'') ''index.json'') = Inr content
         \<and> parseIndexJSON w content = Some parsed
         \<longrightarrow> loadReferenceIndex w dir = (Inr parsed, []))
   \<and> (\<forall>names logs.
         files w (join dir ''references'') = Some (Dir names)
         \<and> (\<not> existsSync w (join (join dir ''references'') ''index.json'') \<and> logs = []
            \<or> existsSync w (join (join dir ''references'') ''index.json'')
                \<and> ((\<exists>e. readFileSync w (join (join dir ''references'') ''index.json'') = Inl e
                        \<and> logs = [FailedToParse (join (join dir ''references'') ''index.json'') e])
                   \<or> (\<exists>content. readFileSync w (join (join dir ''references'') ''index.json'') = Inr content
                        \<and> parseIndexJSON w content = None
                        \<and> logs = [FailedToParse (join (join dir ''references'') ''index.json'') SyntaxError])))
         \<longrightarrow> loadReferenceIndex w dir
              = (Inr (Some (fst (scanFiles w (join dir ''references'')
                              (filter (\<lambda>f. endsWith f ''.md'' \<and> f \<noteq> ''README.md'') names) ([], [])))),
                 logs @ snd (scanFiles w (join dir ''references'')
                              (filter (\<lambda>f. endsWith f ''.md'' \<and> f \<noteq> ''README.md'') names) ([], []))))"
proof (intro conjI allI impI)
  assume "\<not> existsSync w (join dir ''references'')"
  then show "loadReferenceIndex w dir = (Inr None, [])" by (rule loadReferenceIndex_missing)
next
  assume "fst (loadReferenceIndex w dir) = Inr None"
  then show "\<not> existsSync w (join dir ''references'')
            \<or> (\<exists>content. readFileSync w (join (join dir ''references'') ''index.json'') = Inr content
                  \<and> parseIndexJSON w content = Some None)"
    by (rule loadReferenceIndex_null)
next
  fix content parsed
  assume a: "existsSync w (join dir ''references'')
         \<and> readFileSync w (join (join dir ''references'') ''index.json'') = Inr content
         \<and> parseIndexJSON w content = Some parsed"
  then have "existsSync w (join (join dir ''references'') ''index.json'')"
    by (auto simp: existsSync_def readFileSync_def split: option.splits)
  with a show "loadReferenceIndex w dir = (Inr parsed, [])"
    by (simp add: loadReferenceIndex_def)
next
  fix names logs
  assume a: "files w (join dir ''references'') = Some (Dir names)
         \<and> (\<not> existsSync w (join (join dir ''references'') ''index.json'') \<and> logs = []
            \<or> existsSync w (join (join dir ''references'') ''index.json'')
                \<and> ((\<exists>e. readFileSync w (join (join dir ''references'') ''index.json'') = Inl e
                        \<and> logs = [FailedToParse (join (join dir ''references'') ''index.json'') e])
                   \<or> (\<exists>content. readFileSync w (join (join dir ''references'') ''index.json'') = Inr content
                        \<and> parseIndexJSON w content = None
                        \<and> logs = [FailedToParse (join (join dir ''references'') ''index.json'') SyntaxError])))"
  from a have d: "files w (join dir ''references'') = Some (Dir names)" by (rule conjunct1)
  from a have c: "\<not> existsSync w (join (join dir ''references'') ''index.json'') \<and> logs = []
            \<or> existsSync w (join (join dir ''references'') ''index.json'')
                \<and> ((\<exists>e. readFileSync w (join (join dir ''references'') ''index.json'') = Inl e
                        \<and> logs = [FailedToParse (join (join dir ''references'') ''index.json'') e])
                   \<or> (\<exists>content. readFileSync w (join (join dir ''references'') ''index.json'') = Inr content
                        \<and> parseIndexJSON w content = None
                        \<and> logs = [FailedToParse (join (join dir ''references'') ''index.json'') SyntaxError]))"
    by (rule conjunct2)
  show "loadReferenceIndex w dir
              = (Inr (Some (fst (scanFiles w (join dir ''references'')
                              (filter (\<lambda>f. endsWith f ''.md'' \<and> f \<noteq> ''README.md'') names) ([], [])))),
                 logs @ snd (scanFiles w (join dir ''references'')
                              (filter (\<lambda>f. endsWith f ''.md'' \<and> f \<noteq> ''README.md'') names) ([], [])))"
    by (rule loadReferenceIndex_fallthrough [OF d c])
qed

theorem C8_catalog_or_null_witness:
  "\<not> existsSync sessionWorld (join ''/work/.claude'' ''references'')
   \<and> loadReferenceIndex sessionWorld ''/work/.claude'' = (Inr None, [])
   \<and> files sessionWorld (join ''/home/u/.claude'' ''references'')
       = Some (Dir [''index.json'', ''README.md'', ''auth.md'', ''notes.txt''])
   \<and> existsSync sessionWorld (join (join ''/home/u/.claude'' ''references'') ''index.json'')
   \<and> readFileSync sessionWorld (join (join ''/home/u/.claude'' ''references'') ''index.json'')
       = Inr ''{ \"auth\": ''
   \<and> parseIndexJSON sessionWorld ''{ \"auth\": '' = None
   \<and> loadReferenceIndex sessionWorld ''/home/u/.claude''
       = (Inr (Some [(''auth'', authEntry)]),
          [FailedToParse ''/home/u/.claude/references/index.json'' SyntaxError])
   \<and> existsSync indexedWorld (join ''/home/u/.claude'' ''references'')
   \<and> readFileSync indexedWorld (join (join ''/home/u/.claude'' ''references'') ''index.json'')
       = Inr indexText
   \<and> parseIndexJSON indexedWorld indexText = Some (Some [(''auth'', authEntry)])
   \<and> loadReferenceIndex indexedWorld ''/home/u/.claude'' = (Inr (Some [(''auth'', authEntry)]), [])
   \<and> fst (loadReferenceIndex nullIndexWorld ''/home/u/.claude'') = Inr None
   \<and> existsSync nullIndexWorld (join ''/home/u/.claude'' ''references'')
   \<and> (\<exists>content.
         readFileSync nullIndexWorld (join (join ''/home/u/.claude'' ''references'') ''index.json'')
           = Inr content
         \<and> parseIndexJSON nullIndexWorld content = Some None)"
proof -
  note inst1 = C8_catalog_or_null [of sessionWorld "''/work/.claude''"]
  note inst2 = C8_catalog_or_null [of sessionWorld "''/home/u/.claude''"]
  have h1: "\<not> existsSync sessionWorld (join ''/work/.claude'' ''references'')"
    by code_simp
  from inst1 h1 have r1: "loadReferenceIndex sessionWorld ''/work/.claude'' = (Inr None, [])"
    by (simp only: simp_thms)
  have h2: "files sessionWorld (join ''/home/u/.claude'' ''references'')
       = Some (Dir [''index.json'', ''README.md'', ''auth.md'', ''notes.txt''])"
    by code_simp
  have h3: "existsSync sessionWorld (join (join ''/home/u/.claude'' ''references'') ''index.json'')"
    by code_simp
  have h4: "readFileSync sessionWorld (join (join ''/home/u/.claude'' ''references'') ''index.json'')
       = Inr ''{ \"auth\": ''"
    by code_simp
  have h5: "parseIndexJSON sessionWorld ''{ \"auth\": '' = None"
    by (simp add: sessionWorld_def)
  have j: "join (join ''/home/u/.claude'' ''references'') ''index.json''
      = ''/home/u/.claude/references/index.json''"
    by (simp add: join_def)
  from inst2 have "\<forall>names logs.
         files sessionWorld (join ''/home/u/.claude'' ''references'') = Some (Dir names)
         \<and> (\<not> existsSync sessionWorld (join (join ''/home/u/.claude'' ''references'') ''index.json'') \<and> logs = []
            \<or> existsSync sessionWorld (join (join ''/home/u/.claude'' ''references'') ''index.json'')
                \<and> ((\<exists>e. readFileSync sessionWorld (join (join ''/home/u/.claude'' ''references'') ''index.json'') = Inl e
                        \<and> logs = [FailedToParse (join (join ''/home/u/.claude'' ''references'') ''index.json'') e])
                   \<or> (\<exists>content. readFileSync sessionWorld (join (join ''/home/u/.claude'' ''references'') ''index.json'') = Inr content
                        \<and> parseIndexJSON sessionWorld content = None
                        \<and> logs = [FailedToParse (join (join ''/home/u/.claude'' ''references'') ''index.json'') SyntaxError])))
         \<longrightarrow> loadReferenceIndex sessionWorld ''/home/u/.claude''
              = (Inr (Some (fst (scanFiles sessionWorld (join ''/home/u/.claude'' ''references'')
                              (filter (\<lambda>f. endsWith f ''.md'' \<and> f \<noteq> ''README.md'') names) ([], [])))),
                 logs @ snd (scanFiles sessionWorld (join ''/home/u/.claude'' ''references'')
                              (filter (\<lambda>f. endsWith f ''.md'' \<and> f \<noteq> ''README.md'') names) ([], [])))"
    by (rule conjunct2 [THEN conjunct2, THEN conjunct2])
  from this [THEN spec, THEN spec,
      of "[''index.json'', ''README.md'', ''auth.md'', ''notes.txt'']"
         "[FailedToParse ''/home/u/.claude/references/index.json'' SyntaxError]"]
    h2 h3 h4 h5 j
  have "loadReferenceIndex sessionWorld ''/home/u/.claude''
      = (Inr (Some (fst (scanFiles sessionWorld (join ''/home/u/.claude'' ''references'')
                (filter (\<lambda>f. endsWith f ''.md'' \<and> f \<noteq> ''README.md'')
                   [''index.json'', ''README.md'', ''auth.md'', ''notes.txt'']) ([], [])))),
         [FailedToParse ''/home/u/.claude/references/index.json'' SyntaxError]
         @ snd (scanFiles sessionWorld (join ''/home/u/.claude'' ''references'')
                (filter (\<lambda>f. endsWith f ''.md'' \<and> f \<noteq> ''README.md'')
                   [''index.json'', ''README.md'', ''auth.md'', ''notes.txt'']) ([], [])))"
    by simp
  also have "\<dots> = (Inr (Some [(''auth'', authEntry)]),
          [FailedToParse ''/home/u/.claude/references/index.json'' SyntaxError])"
    by code_simp
  finally have r2: "loadReferenceIndex sessionWorld ''/home/u/.claude''
       = (Inr (Some [(''auth'', authEntry)]),
          [FailedToParse ''/home/u/.claude/references/index.json'' SyntaxError])" .
  note inst3 = C8_catalog_or_null [of indexedWorld "''/home/u/.claude''"]
  have i1: "existsSync indexedWorld (join ''/home/u/.claude'' ''references'')"
    by code_simp
  have i2: "readFileSync indexedWorld (join (join ''/home/u/.claude'' ''references'') ''index.json'')
       = Inr indexText"
    by (simp add: readFileSync_def indexedWorld_def join_def)
  have i3: "parseIndexJSON indexedWorld indexText = Some (Some [(''auth'', authEntry)])"
    by (simp add: indexedWorld_def)
  from inst3 have "\<forall>content parsed.
         existsSync indexedWorld (join ''/home/u/.claude'' ''references'')
         \<and> readFileSync indexedWorld (join (join ''/home/u/.claude'' ''references'') ''index.json'') = Inr content
         \<and> parseIndexJSON indexedWorld content = Some parsed
         \<longrightarrow> loadReferenceIndex indexedWorld ''/home/u/.claude'' = (Inr parsed, [])"
    by (rule conjunct2 [THEN conjunct2, THEN conjunct1])
  from this [THEN spec, THEN spec, THEN mp, OF conjI [OF i1 conjI [OF i2 i3]]]
  have i4: "loadReferenceIndex indexedWorld ''/home/u/.claude'' = (Inr (Some [(''auth'', authEntry)]), [])" .
  note inst4 = C8_catalog_or_null [of nullIndexWorld "''/home/u/.claude''"]
  have n1: "fst (loadReferenceIndex nullIndexWorld ''/home/u/.claude'') = Inr None"
    by code_simp
  have n2: "existsSync nullIndexWorld (join ''/home/u/.claude'' ''references'')"
    by code_simp
  from inst4 have "fst (loadReferenceIndex nullIndexWorld ''/home/u/.claude'') = Inr None
        \<longrightarrow> \<not> existsSync nullIndexWorld (join ''/home/u/.claude'' ''references'')
            \<or> (\<exists>content. readFileSync nullIndexWorld (join (join ''/home/u/.claude'' ''references'') ''index.json'') = Inr content
                  \<and> parseIndexJSON nullIndexWorld content = Some None)"
    by (rule conjunct2 [THEN conjunct1])
  with n1 n2 have n3: "\<exists>content.
         readFileSync nullIndexWorld (join (join ''/home/u/.claude'' ''references'') ''index.json'')
           = Inr content
         \<and> parseIndexJSON nullIndexWorld content = Some None"
    by simp
  from h1 r1 h2 h3 h4 h5 r2 i1 i2 i3 i4 n1 n2 n3 show ?thesis by (intro conjI)
qed


section \<open>Properties of the entry point\<close>

lemma assembled_empty: "(assembled st = []) = (loadedContent st = [])"
  by (simp add: assembled_def)

lemma loadReferences_empty:
  "(fst (loadReferences w detected) = []) = (acceptedEntries w MAX_TOTAL_TOKENS 0 detected = [])"
proof -
  have "length (loadedContent (loadLoop w MAX_TOTAL_TOKENS initialLoadState detected))
      = length (acceptedEntries w MAX_TOTAL_TOKENS 0 detected)"
    by (simp add: loadLoop_loadedContent_length initialLoadState_def)
  then have "(loadedContent (loadLoop w MAX_TOTAL_TOKENS initialLoadState detected) = [])
      = (acceptedEntries w MAX_TOTAL_TOKENS 0 detected = [])"
    by (metis length_0_conv)
  then show ?thesis
    by (simp add: loadReferences_def loadReferencesWithin_def Let_def assembled_empty)
qed

lemma detectAndLoadModuleRules_returns:
  "\<exists>v. fst (detectAndLoadModuleRules w config) = Inr v"
  by (cases "detectAndLoadBody w config" rule: prod.exhaust [case_names Pair])
     (auto simp: detectAndLoadModuleRules_def split: sum.splits)

lemma detectAndLoadBody_text:
  assumes "fst (detectAndLoadBody w config) = Inr (Some content)"
  shows "\<exists>userIndex projectIndex mergedIndex.
      fst (loadReferenceIndex w (userDir config)) = Inr userIndex
      \<and> fst (loadReferenceIndex w (projectDir config)) = Inr projectIndex
      \<and> mergeIndices userIndex projectIndex = Inr mergedIndex
      \<and> content = fst (loadReferences w
            (detectModules w mergedIndex (cwd config) (prompt config)))
      \<and> content \<noteq> []"
  using assms
  by (auto simp: detectAndLoadBody_def Let_def split: prod.splits sum.splits if_splits)

lemma detectAndLoadModuleRules_body:
  "fst (detectAndLoadModuleRules w config) = Inr (Some content)
   \<Longrightarrow> fst (detectAndLoadBody w config) = Inr (Some content)"
  by (auto simp: detectAndLoadModuleRules_def split: prod.splits sum.splits)


subsection \<open>C5: the entry point always returns\<close>

text \<open>
  C5: \<^verbatim>\<open>detectAndLoadModuleRules\<close> never throws: it returns the assembled text or the absent
  value, and what is thrown inside it is logged and turned into the absent value. When
  neither base directory has a \<^verbatim>\<open>references\<close> path the result is the absent value. The
  returned text is never the empty string: it is the output of \<^verbatim>\<open>loadReferences\<close> on the
  detected list, which is empty exactly when no entry was loaded.
\<close>

theorem C5_entry_point_always_returns:
  "(\<exists>v. fst (detectAndLoadModuleRules w config) = Inr v)
   \<and> (\<forall>e logs. detectAndLoadBody w config = (Inl e, logs)
         \<longrightarrow> detectAndLoadModuleRules w config = (Inr None, logs @ [DetectionError e]))
   \<and> (\<not> existsSync w (join (userDir config) ''references'')
        \<and> \<not> existsSync w (join (projectDir config) ''references'')
       \<longrightarrow> detectAndLoadModuleRules w config = (Inr None, []))
   \<and> fst (detectAndLoadModuleRules w config) \<noteq> Inr (Some [])
   \<and> (\<forall>content. fst (detectAndLoadModuleRules w config) = Inr (Some content)
         \<longrightarrow> (\<exists>userIndex projectIndex mergedIndex.
                fst (loadReferenceIndex w (userDir config)) = Inr userIndex
                \<and> fst (loadReferenceIndex w (projectDir config)) = Inr projectIndex
                \<and> mergeIndices userIndex projectIndex = Inr mergedIndex
                \<and> content = fst (loadReferences w
                      (detectModules w mergedIndex (cwd config) (prompt config)))
                \<and> acceptedEntries w MAX_TOTAL_TOKENS 0
                      (detectModules w mergedIndex (cwd config) (prompt config))
                    \<noteq> []))
   \<and> (\<forall>detected. (fst (loadReferences w detected) = [])
         = (acceptedEntries w MAX_TOTAL_TOKENS 0 detected = []))"
proof (intro conjI allI impI)
  show "\<exists>v. fst (detectAndLoadModuleRules w config) = Inr v"
    by (rule detectAndLoadModuleRules_returns)
next
  fix e logs
  assume "detectAndLoadBody w config = (Inl e, logs)"
  then show "detectAndLoadModuleRules w config = (Inr None, logs @ [DetectionError e])"
    by (simp add: detectAndLoadModuleRules_def)
next
  assume "\<not> existsSync w (join (userDir config) ''references'')
        \<and> \<not> existsSync w (join (projectDir config) ''references'')"
  then have "loadReferenceIndex w (userDir config) = (Inr None, [])"
    and "loadReferenceIndex w (projectDir config) = (Inr None, [])"
    by (simp_all add: loadReferenceIndex_missing)
  then show "detectAndLoadModuleRules w config = (Inr None, [])"
    by (simp add: detectAndLoadModuleRules_def detectAndLoadBody_def)
next
  show "fst (detectAndLoadModuleRules w config) \<noteq> Inr (Some [])"
  proof
    assume "fst (detectAndLoadModuleRules w config) = Inr (Some [])"
    then have "fst (detectAndLoadBody w config) = Inr (Some [])"
      by (rule detectAndLoadModuleRules_body)
    from detectAndLoadBody_text [OF this] show False by simp
  qed
next
  fix content
  assume "fst (detectAndLoadModuleRules w config) = Inr (Some content)"
  then have "fst (detectAndLoadBody w config) = Inr (Some content)"
    by (rule detectAndLoadModuleRules_body)
  from detectAndLoadBody_text [OF this]
  obtain userIndex projectIndex mergedIndex where
    u: "fst (loadReferenceIndex w (userDir config)) = Inr userIndex"
    and p: "fst (loadReferenceIndex w (projectDir config)) = Inr projectIndex"
    and m: "mergeIndices userIndex projectIndex = Inr mergedIndex"
    and c: "content = fst (loadReferences w
            (detectModules w mergedIndex (cwd config) (prompt config)))"
    and ne: "content \<noteq> []"
    by blast
  from c ne have "acceptedEntries w MAX_TOTAL_TOKENS 0
      (detectModules w mergedIndex (cwd config) (prompt config)) \<noteq> []"
    by (simp add: loadReferences_empty)
  with u p m c show "\<exists>userIndex projectIndex mergedIndex.
                fst (loadReferenceIndex w (userDir config)) = Inr userIndex
                \<and> fst (loadReferenceIndex w (projectDir config)) = Inr projectIndex
                \<and> mergeIndices userIndex projectIndex = Inr mergedIndex
                \<and> content = fst (loadReferences w
                      (detectModules w mergedIndex (cwd config) (prompt config)))
                \<and> acceptedEntries w MAX_TOTAL_TOKENS 0
                      (detectModules w mergedIndex (cwd config) (prompt config))
                    \<noteq> []"
    by blast
next
  fix detected
  show "(fst (loadReferences w detected) = [])
         = (acceptedEntries w MAX_TOTAL_TOKENS 0 detected = [])"
    by (rule loadReferences_empty)
qed

theorem C5_entry_point_always_returns_witness:
  "detectAndLoadBody brokenWorld sessionConfig = (Inl ENOTDIR, [])
   \<and> detectAndLoadModuleRules brokenWorld sessionConfig = (Inr None, [DetectionError ENOTDIR])
   \<and> detectAndLoadBody inheritedNameWorld sessionConfig = (Inl TypeError, [])
   \<and> detectAndLoadModuleRules inheritedNameWorld sessionConfig = (Inr None, [DetectionError TypeError])
   \<and> \<not> existsSync scenarioWorld (join (userDir sessionConfig) ''references'')
   \<and> \<not> existsSync scenarioWorld (join (projectDir sessionConfig) ''references'')
   \<and> detectAndLoadModuleRules scenarioWorld sessionConfig = (Inr None, [])
   \<and> fst (detectAndLoadModuleRules sessionWorld sessionConfig)
       = Inr (Some (''## Module Rules (Auto-detected: auth)'' @ [NL, NL] @ ''### AUTH'' @ [NL]
                    @ ''_Triggered by: keyword: oauth_'' @ [NL, NL] @ ''# Auth'' @ [NL, NL]
                    @ ''Use OAuth.''))
   \<and> mergeIndices (Some [(''auth'', authEntry)]) None = Inr [(''auth'', authEntry)]
   \<and> acceptedEntries sessionWorld MAX_TOTAL_TOKENS 0
        (detectModules sessionWorld [(''auth'', authEntry)]
           (cwd sessionConfig) (prompt sessionConfig)) \<noteq> []"
proof -
  note inherited = C5_entry_point_always_returns [of inheritedNameWorld sessionConfig]
  have t1: "detectAndLoadBody inheritedNameWorld sessionConfig = (Inl TypeError, [])"
    by code_simp
  from inherited have "\<forall>e logs. detectAndLoadBody inheritedNameWorld sessionConfig = (Inl e, logs)
         \<longrightarrow> detectAndLoadModuleRules inheritedNameWorld sessionConfig = (Inr None, logs @ [DetectionError e])"
    by (rule conjunct2 [THEN conjunct1])
  with t1 have t2: "detectAndLoadModuleRules inheritedNameWorld sessionConfig = (Inr None, [DetectionError TypeError])"
    by simp
  note broken = C5_entry_point_always_returns [of brokenWorld sessionConfig]
  note missing = C5_entry_point_always_returns [of scenarioWorld sessionConfig]
  note session = C5_entry_point_always_returns [of sessionWorld sessionConfig]
  have b1: "detectAndLoadBody brokenWorld sessionConfig = (Inl ENOTDIR, [])"
    by code_simp
  from broken have "\<forall>e logs. detectAndLoadBody brokenWorld sessionConfig = (Inl e, logs)
         \<longrightarrow> detectAndLoadModuleRules brokenWorld sessionConfig = (Inr None, logs @ [DetectionError e])"
    by (rule conjunct2 [THEN conjunct1])
  with b1 have b2: "detectAndLoadModuleRules brokenWorld sessionConfig = (Inr None, [DetectionError ENOTDIR])"
    by simp
  have m1: "\<not> existsSync scenarioWorld (join (userDir sessionConfig) ''references'')"
    and m2: "\<not> existsSync scenarioWorld (join (projectDir sessionConfig) ''references'')"
    by code_simp+
  from missing have "\<not> existsSync scenarioWorld (join (userDir sessionConfig) ''references'')
        \<and> \<not> existsSync scenarioWorld (join (projectDir sessionConfig) ''references'')
       \<longrightarrow> detectAndLoadModuleRules scenarioWorld sessionConfig = (Inr None, [])"
    by (rule conjunct2 [THEN conjunct2, THEN conjunct1])
  with m1 m2 have m3: "detectAndLoadModuleRules scenarioWorld sessionConfig = (Inr None, [])"
    by simp
  have s1: "fst (detectAndLoadModuleRules sessionWorld sessionConfig)
       = Inr (Some (''## Module Rules (Auto-detected: auth)'' @ [NL, NL] @ ''### AUTH'' @ [NL]
                    @ ''_Triggered by: keyword: oauth_'' @ [NL, NL] @ ''# Auth'' @ [NL, NL]
                    @ ''Use OAuth.''))"
    by code_simp
  have u: "fst (loadReferenceIndex sessionWorld (userDir sessionConfig)) = Inr (Some [(''auth'', authEntry)])"
    and p: "fst (loadReferenceIndex sessionWorld (projectDir sessionConfig)) = Inr None"
    by code_simp+
  have g: "mergeIndices (Some [(''auth'', authEntry)]) None = Inr [(''auth'', authEntry)]"
    by (simp add: mergeIndices_def indexOrEmpty_def)
  from session s1 obtain userIndex projectIndex mergedIndex where
    "fst (loadReferenceIndex sessionWorld (userDir sessionConfig)) = Inr userIndex"
    and "fst (loadReferenceIndex sessionWorld (projectDir sessionConfig)) = Inr projectIndex"
    and "mergeIndices userIndex projectIndex = Inr mergedIndex"
    and "acceptedEntries sessionWorld MAX_TOTAL_TOKENS 0
          (detectModules sessionWorld mergedIndex
             (cwd sessionConfig) (prompt sessionConfig)) \<noteq> []"
    by blast
  with u p g have s2: "acceptedEntries sessionWorld MAX_TOTAL_TOKENS 0
        (detectModules sessionWorld [(''auth'', authEntry)]
           (cwd sessionConfig) (prompt sessionConfig)) \<noteq> []"
    by simp
  from b1 b2 t1 t2 m1 m2 m3 s1 g s2 show ?thesis by (intro conjI)
qed


section \<open>Properties of the front-matter parser\<close>




















subsection \<open>C6: where the trigger lists are stored\<close>




end
